theory Spec2Isabelle
  imports Main "HOL-Library.Word" "HOL-Library.AList"
begin

section \<open>Errors\<close>

text \<open>
  Every C++ exception, failed \<^verbatim>\<open>assert\<close> and undefined read of the modelled code is a
  value of \<open>exn\<close>; a function that can throw returns \<open>exn + 'a\<close> with \<open>Inl\<close> the error.
  \<^verbatim>\<open>IPCVariant::InvalidType\<close> has two constructors: without text and with the offending
  signature text.
\<close>

datatype exn =
    InvalidType "string option"
  | RuntimeError string
  | InvalidArgument string
  | AssertionFailure
  | NullDereference
  | UndefinedBehaviour
  | GLibCritical

fun is_InvalidType :: "exn + 'a \<Rightarrow> bool" where
  "is_InvalidType (Inl (InvalidType m)) = True"
| "is_InvalidType r = False"

section \<open>TypeInfo\<close>

text \<open>\<^verbatim>\<open>enum Type : char\<close> of IPCVariant.h.\<close>

datatype Type =
    Int16 | UInt16 | Int32 | UInt32 | Int64 | UInt64 | Double | Byte
  | String | Signature | ObjectPath | Boolean | Array | Struct | Dict | None_type

definition SINGLE_TYPES :: string where
  "SINGLE_TYPES = ''nqiuxtdysgob''"

definition SPECIAL_TYPES :: string where
  "SPECIAL_TYPES = ''a({''"

definition ALL_TYPES :: string where
  "ALL_TYPES = SINGLE_TYPES @ SPECIAL_TYPES"

definition VALID_CHARS :: string where
  "VALID_CHARS = ALL_TYPES @ '')}''"

text \<open>\<^verbatim>\<open>static_cast<Type>(c)\<close>; the code only casts characters of \<open>ALL_TYPES\<close>.\<close>

definition Type_of_char :: "char \<Rightarrow> Type" where
  "Type_of_char c =
     (if c = CHR ''n'' then Int16 else if c = CHR ''q'' then UInt16
      else if c = CHR ''i'' then Int32 else if c = CHR ''u'' then UInt32
      else if c = CHR ''x'' then Int64 else if c = CHR ''t'' then UInt64
      else if c = CHR ''d'' then Double else if c = CHR ''y'' then Byte
      else if c = CHR ''s'' then String else if c = CHR ''g'' then Signature
      else if c = CHR ''o'' then ObjectPath else if c = CHR ''b'' then Boolean
      else if c = CHR ''a'' then Array else if c = CHR ''('' then Struct
      else if c = CHR ''{'' then Dict else None_type)"

fun char_of_Type :: "Type \<Rightarrow> char" where
  "char_of_Type Int16 = CHR ''n''"
| "char_of_Type UInt16 = CHR ''q''"
| "char_of_Type Int32 = CHR ''i''"
| "char_of_Type UInt32 = CHR ''u''"
| "char_of_Type Int64 = CHR ''x''"
| "char_of_Type UInt64 = CHR ''t''"
| "char_of_Type Double = CHR ''d''"
| "char_of_Type Byte = CHR ''y''"
| "char_of_Type String = CHR ''s''"
| "char_of_Type Signature = CHR ''g''"
| "char_of_Type ObjectPath = CHR ''o''"
| "char_of_Type Boolean = CHR ''b''"
| "char_of_Type Array = CHR ''a''"
| "char_of_Type Struct = CHR ''(''"
| "char_of_Type Dict = CHR ''{''"
| "char_of_Type None_type = CHR ''0''"

text \<open>
  \<^verbatim>\<open>class TypeInfo\<close>: the fields \<^verbatim>\<open>_type\<close>, \<^verbatim>\<open>_type_signature\<close>, \<^verbatim>\<open>_struct_types\<close>,
  \<^verbatim>\<open>_array_type\<close>, \<^verbatim>\<open>_dict_key\<close>, \<^verbatim>\<open>_dict_value\<close>; a null \<^verbatim>\<open>shared_ptr\<close> is \<open>None\<close>.
\<close>

datatype TypeInfo =
  TypeInfo (primaryType: Type) (typeSignature: string) (struct_types: "TypeInfo list")
    (array_type: "TypeInfo option") (dict_key: "TypeInfo option")
    (dict_value: "TypeInfo option")

text \<open>\<^verbatim>\<open>TypeInfo::TypeInfo()\<close>: kind None, signature \<^verbatim>\<open>"0"\<close>.\<close>

definition TypeInfo_default :: TypeInfo where
  "TypeInfo_default = TypeInfo None_type [char_of_Type None_type] [] None None None"

text \<open>\<^verbatim>\<open>TypeInfo::TypeInfo(char)\<close>.\<close>

definition TypeInfo_of_char :: "char \<Rightarrow> exn + TypeInfo" where
  "TypeInfo_of_char c =
     (if c \<in> set SINGLE_TYPES then Inr (TypeInfo (Type_of_char c) [c] [] None None None)
      else Inl (InvalidType (Some [c])))"

text \<open>\<^verbatim>\<open>TypeInfo::TypeInfo(Type t)\<close>.\<close>

definition TypeInfo_of_Type :: "Type \<Rightarrow> exn + TypeInfo" where
  "TypeInfo_of_Type t =
     (if t = None_type \<or> t = Array \<or> t = Struct \<or> t = Dict then Inl (InvalidType None)
      else Inr (TypeInfo t [char_of_Type t] [] None None None))"

text \<open>\<^verbatim>\<open>TypeInfo::operator==\<close> and \<^verbatim>\<open>operator!=\<close> compare the signature text only.\<close>

definition TypeInfo_eq :: "TypeInfo \<Rightarrow> TypeInfo \<Rightarrow> bool" where
  "TypeInfo_eq a other = (typeSignature other = typeSignature a)"

definition TypeInfo_neq :: "TypeInfo \<Rightarrow> TypeInfo \<Rightarrow> bool" where
  "TypeInfo_neq a other = (typeSignature other \<noteq> typeSignature a)"

definition arrayType :: "TypeInfo \<Rightarrow> exn + TypeInfo" where
  "arrayType t =
     (if primaryType t \<noteq> Array then Inl (InvalidType None)
      else case array_type t of None \<Rightarrow> Inl NullDereference | Some e \<Rightarrow> Inr e)"

definition structFormat :: "TypeInfo \<Rightarrow> exn + TypeInfo list" where
  "structFormat t =
     (if primaryType t \<noteq> Struct then Inl (InvalidType None) else Inr (struct_types t))"

definition dictType :: "TypeInfo \<Rightarrow> exn + (TypeInfo \<times> TypeInfo)" where
  "dictType t =
     (if primaryType t \<noteq> Dict then Inl (InvalidType None)
      else case (dict_key t, dict_value t) of
             (Some k, Some v) \<Rightarrow> Inr (k, v)
           | _ \<Rightarrow> Inl NullDereference)"

text \<open>\<^verbatim>\<open>std::string::substr(pos, n)\<close> for \<open>pos \<le> size\<close>, the only way the parser calls it.\<close>

definition substr :: "string \<Rightarrow> nat \<Rightarrow> nat \<Rightarrow> string" where
  "substr s pos n = take n (drop pos s)"

text \<open>
  The counting loop of \<^verbatim>\<open>getSpecialEnd\<close> for a struct or dict: \<open>e\<close> is the loop index
  \<^verbatim>\<open>end\<close>, \<open>cnt\<close> is \<^verbatim>\<open>end_count\<close>, \<open>opn\<close> the opening character at \<^verbatim>\<open>start\<close> and \<open>cls\<close>
  the closing character \<^verbatim>\<open>c\<close>.
\<close>

function count_loop :: "string \<Rightarrow> char \<Rightarrow> char \<Rightarrow> nat \<Rightarrow> int \<Rightarrow> exn + nat" where
  "count_loop sig opn cls e cnt =
     (if e < length sig then
        (let cnt' = (if sig ! e = opn then cnt + 1
                     else if sig ! e = cls then cnt - 1 else cnt)
         in if cnt' = 0 then Inr e else count_loop sig opn cls (e + 1) cnt')
      else if cnt \<noteq> 0 then Inl (InvalidType (Some sig)) else Inr e)"
  by pat_completeness auto
termination
  by (relation "measure (\<lambda>(sig, opn, cls, e, cnt). length sig - e)") auto

text \<open>
  \<^verbatim>\<open>TypeInfo::getSpecialEnd\<close>. The two \<^verbatim>\<open>assert\<close>s are the first two tests; on an empty
  string \<^verbatim>\<open>size()-1\<close> wraps around and the read at \<^verbatim>\<open>start\<close> is out of bounds, which the
  model reports as \<open>UndefinedBehaviour\<close>.
\<close>

function getSpecialEnd :: "string \<Rightarrow> nat \<Rightarrow> exn + nat" where
  "getSpecialEnd sig start =
     (if sig = [] then Inl UndefinedBehaviour
      else if \<not> start < length sig - 1 then Inl AssertionFailure
      else if sig ! start \<notin> set SPECIAL_TYPES then Inl AssertionFailure
      else if sig ! start = CHR ''a'' then
        (if sig ! (start + 1) \<in> set SINGLE_TYPES then Inr (start + 1)
         else if sig ! (start + 1) \<in> set SPECIAL_TYPES then
           (if start \<ge> length sig - 2 then Inl (InvalidType (Some sig))
            else getSpecialEnd sig (start + 1))
         else Inl (InvalidType (Some sig)))
      else
        (let c = (if sig ! start = CHR ''{'' then CHR ''}'' else CHR '')'')
         in count_loop sig (sig ! start) c (start + 1) 1))"
  by pat_completeness auto
termination
  by (relation "measure (\<lambda>(sig, start). length sig - start)") auto

declare count_loop.simps [simp del]
declare getSpecialEnd.simps [simp del]

lemma count_loop_gt: "count_loop sig opn cls e cnt = Inr r \<Longrightarrow> e \<le> r"
proof (induction sig opn cls e cnt rule: count_loop.induct)
  case (1 sig opn cls e cnt)
  show ?case
  proof (cases "e < length sig")
    case False
    with "1.prems" show ?thesis
      by (subst (asm) count_loop.simps) (simp split: if_splits)
  next
    case True
    define cnt' where "cnt' = (if sig ! e = opn then cnt + 1
                     else if sig ! e = cls then cnt - 1 else cnt)"
    have unf: "count_loop sig opn cls e cnt =
                 (if cnt' = 0 then Inr e else count_loop sig opn cls (e + 1) cnt')"
      using True by (subst count_loop.simps) (simp add: cnt'_def Let_def)
    show ?thesis
    proof (cases "cnt' = 0")
      case True
      with "1.prems" unf show ?thesis by simp
    next
      case False
      with "1.prems" unf have "count_loop sig opn cls (e + 1) cnt' = Inr r" by simp
      with "1.IH" [OF \<open>e < length sig\<close> cnt'_def False] show ?thesis by simp
    qed
  qed
qed

lemma getSpecialEnd_gt: "getSpecialEnd sig start = Inr r \<Longrightarrow> start < r"
proof (induction sig start rule: getSpecialEnd.induct)
  case (1 sig start)
  have ne: "sig \<noteq> []"
    using "1.prems" by (subst (asm) getSpecialEnd.simps) (simp split: if_splits)
  have lt: "start < length sig - 1"
    using "1.prems" ne by (subst (asm) getSpecialEnd.simps) (simp split: if_splits)
  have sp: "sig ! start \<in> set SPECIAL_TYPES"
    using "1.prems" ne lt by (subst (asm) getSpecialEnd.simps) (simp split: if_splits)
  show ?case
  proof (cases "sig ! start = CHR ''a''")
    case False
    have "getSpecialEnd sig start =
            count_loop sig (sig ! start) (if sig ! start = CHR ''{'' then CHR ''}'' else CHR '')'')
              (start + 1) 1"
      using ne lt sp False by (subst getSpecialEnd.simps) (simp add: Let_def)
    with "1.prems" have "count_loop sig (sig ! start)
              (if sig ! start = CHR ''{'' then CHR ''}'' else CHR '')'') (start + 1) 1 = Inr r"
      by simp
    from count_loop_gt [OF this] show ?thesis by simp
  next
    case True
    note isa = True
    show ?thesis
    proof (cases "sig ! (start + 1) \<in> set SINGLE_TYPES")
      case True
      have "getSpecialEnd sig start = Inr (start + 1)"
        using ne lt sp isa True by (subst getSpecialEnd.simps) simp
      with "1.prems" show ?thesis by simp
    next
      case False
      note nsingle = False
      have unf: "getSpecialEnd sig start =
         (if sig ! (start + 1) \<in> set SPECIAL_TYPES then
           (if start \<ge> length sig - 2 then Inl (InvalidType (Some sig))
            else getSpecialEnd sig (start + 1))
         else Inl (InvalidType (Some sig)))"
        using ne lt sp isa nsingle by (subst getSpecialEnd.simps) simp
      from unf "1.prems" have s2: "sig ! (start + 1) \<in> set SPECIAL_TYPES"
        by (simp split: if_splits)
      from unf "1.prems" s2 have b: "\<not> start \<ge> length sig - 2"
        by (simp split: if_splits)
      from unf "1.prems" s2 b have rc: "getSpecialEnd sig (start + 1) = Inr r"
        by simp
      have a1: "\<not> \<not> start < length sig - 1" using lt by simp
      have a2: "\<not> sig ! start \<notin> set SPECIAL_TYPES" using sp by simp
      from "1.IH" [OF ne a1 a2 isa nsingle s2 b rc]
      show ?thesis by simp
    qed
  qed
qed

text \<open>
  \<^verbatim>\<open>TypeInfo::TypeInfo(std::string)\<close>, in four mutually recursive parts:
  \<open>TypeInfo_of_string\<close> is the constructor up to the choice of the composite branch;
  \<open>struct_loop sig i acc\<close> is the \<^verbatim>\<open>for\<close> loop of the struct branch at index \<open>i\<close>, with
  \<open>acc\<close> the \<^verbatim>\<open>_struct_types\<close> collected so far; \<open>dict_key_part\<close> is the dict branch up to
  \<^verbatim>\<open>value_start\<close> (it returns the key type and \<^verbatim>\<open>value_start\<close>); \<open>dict_value_part\<close> is the
  rest of the dict branch. The first test of each dict part is not in the C++: the
  constructor reaches the dict branch with a string of at least two characters and reaches
  the second part with \<^verbatim>\<open>value_start\<close> at least 2, so neither test is ever true there; they
  make the parts total on their own. The last \<open>else\<close> of \<open>TypeInfo_of_string\<close> is the end of
  the constructor when \<^verbatim>\<open>_type\<close> is none of \<^verbatim>\<open>Array\<close>, \<^verbatim>\<open>Struct\<close>, \<^verbatim>\<open>Dict\<close>, which no character
  of \<open>SPECIAL_TYPES\<close> gives.
\<close>

function TypeInfo_of_string :: "string \<Rightarrow> exn + TypeInfo"
  and struct_loop :: "string \<Rightarrow> nat \<Rightarrow> TypeInfo list \<Rightarrow> exn + TypeInfo list"
  and dict_key_part :: "string \<Rightarrow> exn + (TypeInfo \<times> nat)"
  and dict_value_part :: "string \<Rightarrow> nat \<Rightarrow> exn + TypeInfo"
where
  "TypeInfo_of_string sig =
     (if sig = [] then Inl (InvalidType None)
      else if \<not> list_all (\<lambda>c. c \<in> set VALID_CHARS) sig then Inl (InvalidType (Some sig))
      else if sig ! 0 \<in> set SINGLE_TYPES then
        (if length sig \<noteq> 1 then Inl (InvalidType (Some sig))
         else Inr (TypeInfo (Type_of_char (sig ! 0)) sig [] None None None))
      else if sig ! 0 \<notin> set SPECIAL_TYPES then Inl (InvalidType (Some sig))
      else if length sig = 1 then Inl (InvalidType (Some sig))
      else if Type_of_char (sig ! 0) = Array then
        (case TypeInfo_of_string (substr sig 1 (length sig - 1)) of
           Inl e \<Rightarrow> Inl e
         | Inr t \<Rightarrow> Inr (TypeInfo Array sig [] (Some t) None None))
      else if Type_of_char (sig ! 0) = Struct then
        (if last sig \<noteq> CHR '')'' then Inl (InvalidType (Some sig))
         else (case struct_loop sig 1 [] of
                 Inl e \<Rightarrow> Inl e
               | Inr ts \<Rightarrow> Inr (TypeInfo Struct sig ts None None None)))
      else if Type_of_char (sig ! 0) = Dict then
        (if last sig \<noteq> CHR ''}'' then Inl (InvalidType (Some sig))
         else (case dict_key_part sig of
                 Inl e \<Rightarrow> Inl e
               | Inr kv \<Rightarrow>
                   (case dict_value_part sig (snd kv) of
                      Inl e \<Rightarrow> Inl e
                    | Inr v \<Rightarrow> Inr (TypeInfo Dict sig [] None (Some (fst kv)) (Some v)))))
      else Inr (TypeInfo (Type_of_char (sig ! 0)) sig [] None None None))"
| "struct_loop sig i acc =
     (if i < length sig - 1 then
        (if sig ! i \<in> set SINGLE_TYPES then
           (case TypeInfo_of_char (sig ! i) of
              Inl e \<Rightarrow> Inl e
            | Inr t \<Rightarrow> struct_loop sig (i + 1) (acc @ [t]))
         else if sig ! i \<in> set SPECIAL_TYPES then
           (case getSpecialEnd sig i of
              Inl e \<Rightarrow> Inl e
            | Inr end \<Rightarrow>
                (if end \<ge> length sig - 1 then Inl (InvalidType (Some sig))
                 else (case TypeInfo_of_string (substr sig i (end - i + 1)) of
                         Inl e \<Rightarrow> Inl e
                       | Inr t \<Rightarrow> struct_loop sig (end + 1) (acc @ [t]))))
         else Inl (InvalidType (Some sig)))
      else Inr acc)"
| "dict_key_part sig =
     (if length sig < 2 then Inl UndefinedBehaviour
      else if sig ! 1 \<in> set SINGLE_TYPES then
        (case TypeInfo_of_string (substr sig 1 1) of
           Inl e \<Rightarrow> Inl e
         | Inr k \<Rightarrow> Inr (k, 2))
      else if sig ! 1 \<in> set SPECIAL_TYPES then
        (case getSpecialEnd sig 1 of
           Inl e \<Rightarrow> Inl e
         | Inr key_end \<Rightarrow>
             (if key_end \<ge> length sig - 1 then Inl (InvalidType (Some sig))
              else (case TypeInfo_of_string (substr sig 1 key_end) of
                      Inl e \<Rightarrow> Inl e
                    | Inr k \<Rightarrow> Inr (k, key_end + 1))))
      else Inl (InvalidType (Some sig)))"
| "dict_value_part sig value_start =
     (if value_start = 0 then Inl UndefinedBehaviour
      else if value_start \<ge> length sig then Inl (InvalidType (Some sig))
      else if sig ! value_start \<in> set SINGLE_TYPES then
        TypeInfo_of_string (substr sig value_start 1)
      else if sig ! value_start \<in> set SPECIAL_TYPES then
        (case getSpecialEnd sig value_start of
           Inl e \<Rightarrow> Inl e
         | Inr value_end \<Rightarrow>
             (if value_end \<noteq> length sig - 2 then Inl (InvalidType (Some sig))
              else TypeInfo_of_string (substr sig value_start (value_end - value_start + 1))))
      else Inl (InvalidType (Some sig)))"
  by pat_completeness auto
termination
proof (relation "measures
    [\<lambda>x. case x of
            Inl (Inl sig) \<Rightarrow> length sig
          | Inl (Inr (sig, i, acc)) \<Rightarrow> length sig
          | Inr (Inl sig) \<Rightarrow> length sig
          | Inr (Inr (sig, vs)) \<Rightarrow> length sig,
     \<lambda>x. case x of
            Inl (Inl sig) \<Rightarrow> length sig + 1
          | Inl (Inr (sig, i, acc)) \<Rightarrow> length sig - i
          | Inr (Inl sig) \<Rightarrow> 0
          | Inr (Inr (sig, vs)) \<Rightarrow> 0]",
       goal_cases)
  case 1
  show ?case by simp
next
  case (2 sig)
  then show ?case by (cases sig) (auto simp: substr_def)
next
  case (3 sig)
  then show ?case by simp
next
  case (4 sig)
  then show ?case by simp
next
  case (5 sig x2)
  then show ?case by simp
next
  case (6 sig i acc x2)
  then show ?case by simp
next
  case (7 sig i acc x2)
  then show ?case by (auto simp: substr_def)
next
  case (8 sig i acc x2 x2a)
  then show ?case using getSpecialEnd_gt [of sig i x2] by auto
next
  case (9 sig)
  then show ?case by (auto simp: substr_def)
next
  case (10 sig x2)
  then show ?case by (auto simp: substr_def)
next
  case (11 sig value_start)
  then show ?case by (auto simp: substr_def)
next
  case (12 sig value_start x2)
  then show ?case by (auto simp: substr_def)
qed

declare TypeInfo_of_string.simps [simp del]
declare struct_loop.simps [simp del]
declare dict_key_part.simps [simp del]
declare dict_value_part.simps [simp del]

section \<open>IPCVariant\<close>

text \<open>
  \<^verbatim>\<open>double\<close> is not modelled bit by bit: the type of doubles is the type variable \<open>'d\<close>, and
  the two conversions the code applies to it, \<^verbatim>\<open>(uint64_t)d\<close> and \<^verbatim>\<open>(double)n\<close>, are the
  fields of a record handed to every function that converts.
\<close>

record 'd double_conv =
  uint64_of_double :: "'d \<Rightarrow> 64 word"
  double_of_uint64 :: "64 word \<Rightarrow> 'd"

text \<open>
  \<^verbatim>\<open>typedef std::map<IPCVariant, IPCVariant, std::equal_to<>> IPCVariantDict\<close> is the list of
  its entries in iteration order. \<^verbatim>\<open>class IPCVariant\<close> has the fields \<^verbatim>\<open>_array\<close>, \<^verbatim>\<open>_dict\<close>,
  \<^verbatim>\<open>_num_data\<close>, \<^verbatim>\<open>_string_data\<close> and \<^verbatim>\<open>_type\<close>.
\<close>

datatype IPCVariant =
  IPCVariant (v_array: "IPCVariant list") (v_dict: "(IPCVariant \<times> IPCVariant) list")
    (v_num_data: "64 word") (v_string_data: string) (v_type: TypeInfo)

type_synonym IPCVariantDict = "(IPCVariant \<times> IPCVariant) list"

text \<open>
  \<^verbatim>\<open>IPCVariant::IPCVariant()\<close>. The C++ leaves \<^verbatim>\<open>_num_data\<close> uninitialised here and in the string
  and container constructors; the model takes 0.
\<close>

definition IPCVariant_default :: IPCVariant where
  "IPCVariant_default = IPCVariant [] [] 0 [] TypeInfo_default"

text \<open>
  The \<^verbatim>\<open>NUM_DATA(x, t)\<close> constructors: \<^verbatim>\<open>_num_data (data), _type (TypeInfo::t)\<close>. The
  conversion to \<^verbatim>\<open>uint64_t\<close> sign-extends a signed argument. The \<^verbatim>\<open>int32_t\<close> constructor is
  declared \<^verbatim>\<open>NUM_DATA(int32_t, Int16)\<close>.
\<close>

definition NUM_DATA :: "64 word \<Rightarrow> Type \<Rightarrow> exn + IPCVariant" where
  "NUM_DATA data t =
     (case TypeInfo_of_Type t of
        Inl e \<Rightarrow> Inl e
      | Inr ty \<Rightarrow> Inr (IPCVariant [] [] data [] ty))"

definition IPCVariant_of_int16 :: "16 word \<Rightarrow> exn + IPCVariant" where
  "IPCVariant_of_int16 data = NUM_DATA (scast data) Int16"

definition IPCVariant_of_uint16 :: "16 word \<Rightarrow> exn + IPCVariant" where
  "IPCVariant_of_uint16 data = NUM_DATA (ucast data) UInt16"

definition IPCVariant_of_int32 :: "32 word \<Rightarrow> exn + IPCVariant" where
  "IPCVariant_of_int32 data = NUM_DATA (scast data) Int16"

definition IPCVariant_of_uint32 :: "32 word \<Rightarrow> exn + IPCVariant" where
  "IPCVariant_of_uint32 data = NUM_DATA (ucast data) UInt32"

definition IPCVariant_of_int64 :: "64 word \<Rightarrow> exn + IPCVariant" where
  "IPCVariant_of_int64 data = NUM_DATA data Int64"

definition IPCVariant_of_uint64 :: "64 word \<Rightarrow> exn + IPCVariant" where
  "IPCVariant_of_uint64 data = NUM_DATA data UInt64"

definition IPCVariant_of_double :: "'d double_conv \<Rightarrow> 'd \<Rightarrow> exn + IPCVariant" where
  "IPCVariant_of_double cv data = NUM_DATA (uint64_of_double cv data) Double"

definition IPCVariant_of_uint8 :: "8 word \<Rightarrow> exn + IPCVariant" where
  "IPCVariant_of_uint8 data = NUM_DATA (ucast data) Byte"

definition IPCVariant_of_bool :: "bool \<Rightarrow> exn + IPCVariant" where
  "IPCVariant_of_bool data = NUM_DATA (if data then 1 else 0) Boolean"

text \<open>\<^verbatim>\<open>IPCVariant(std::string data, TypeInfo::Type type)\<close>.\<close>

definition IPCVariant_of_string :: "string \<Rightarrow> Type \<Rightarrow> exn + IPCVariant" where
  "IPCVariant_of_string data t =
     (case TypeInfo_of_Type t of
        Inl e \<Rightarrow> Inl e
      | Inr ty \<Rightarrow>
          if t \<noteq> String \<and> t \<noteq> Signature \<and> t \<noteq> ObjectPath then Inl (InvalidType None)
          else Inr (IPCVariant [] [] 0 data ty))"

text \<open>
  The validation loops shared by the container constructors and the typed assignments.
  \<open>array_check\<close>: every element has the array's element type (\<^verbatim>\<open>arrayType()\<close> is called once
  per element). \<open>struct_check\<close>: the loop over the indices, after the size test.
  \<open>dict_check_ctor\<close> and \<open>dict_check_assign\<close>: the loops over the entries.
\<close>

fun array_check :: "TypeInfo \<Rightarrow> IPCVariant list \<Rightarrow> exn + unit" where
  "array_check ty [] = Inr ()"
| "array_check ty (i # rest) =
     (case arrayType ty of
        Inl e \<Rightarrow> Inl e
      | Inr at \<Rightarrow>
          if TypeInfo_neq (v_type i) at then Inl (InvalidType None)
          else array_check ty rest)"

fun struct_check :: "TypeInfo list \<Rightarrow> IPCVariant list \<Rightarrow> exn + unit" where
  "struct_check (f # fmt) (x # xs) =
     (if TypeInfo_neq (v_type x) f then Inl (InvalidType None) else struct_check fmt xs)"
| "struct_check fmt xs = Inr ()"

definition vector_check :: "TypeInfo \<Rightarrow> IPCVariant list \<Rightarrow> exn + unit" where
  "vector_check ty array =
     (if primaryType ty = Array then array_check ty array
      else if primaryType ty = Struct then
        (case structFormat ty of
           Inl e \<Rightarrow> Inl e
         | Inr fmt \<Rightarrow>
             if length array \<noteq> length fmt then Inl (InvalidType None)
             else struct_check fmt array)
      else Inl (InvalidType None))"

fun dict_check_ctor :: "TypeInfo \<Rightarrow> IPCVariantDict \<Rightarrow> exn + unit" where
  "dict_check_ctor ty [] = Inr ()"
| "dict_check_ctor ty (it # rest) =
     (case dictType ty of
        Inl e \<Rightarrow> Inl e
      | Inr kv \<Rightarrow>
          if TypeInfo_neq (v_type (fst it)) (fst kv) then Inl (InvalidType None)
          else if TypeInfo_neq (v_type (snd it)) (snd kv) then Inl (InvalidType None)
          else dict_check_ctor ty rest)"

fun dict_check_assign :: "TypeInfo \<times> TypeInfo \<Rightarrow> IPCVariantDict \<Rightarrow> exn + unit" where
  "dict_check_assign dict_format [] = Inr ()"
| "dict_check_assign dict_format (i # rest) =
     (if TypeInfo_neq (v_type (fst i)) (fst dict_format) \<or>
         TypeInfo_neq (v_type (snd i)) (snd dict_format) then Inl (InvalidType None)
      else dict_check_assign dict_format rest)"

text \<open>\<^verbatim>\<open>IPCVariant(std::vector<IPCVariant> array, const TypeInfo& type)\<close>.\<close>

definition IPCVariant_of_vector :: "IPCVariant list \<Rightarrow> TypeInfo \<Rightarrow> exn + IPCVariant" where
  "IPCVariant_of_vector array ty =
     (case vector_check ty array of
        Inl e \<Rightarrow> Inl e
      | Inr u \<Rightarrow> Inr (IPCVariant array [] 0 [] ty))"

text \<open>\<^verbatim>\<open>IPCVariant(IPCVariantDict dict, const TypeInfo& type)\<close>.\<close>

definition IPCVariant_of_dict :: "IPCVariantDict \<Rightarrow> TypeInfo \<Rightarrow> exn + IPCVariant" where
  "IPCVariant_of_dict dict ty =
     (if primaryType ty \<noteq> Dict then Inl (InvalidType None)
      else case dict_check_ctor ty dict of
             Inl e \<Rightarrow> Inl e
           | Inr u \<Rightarrow> Inr (IPCVariant [] dict 0 [] ty))"

text \<open>
  The typed accessors, \<^verbatim>\<open>operator x() const\<close> of \<^verbatim>\<open>TYPE_OVERLOAD\<close>: \<^verbatim>\<open>if(c) throw InvalidType();
  return (x)v;\<close>. The cast of \<^verbatim>\<open>_num_data\<close> to a narrower integer keeps the low bits.
\<close>

definition NUM_TYPE_get :: "Type \<Rightarrow> (64 word \<Rightarrow> 'a) \<Rightarrow> IPCVariant \<Rightarrow> exn + 'a" where
  "NUM_TYPE_get t cast v =
     (if primaryType (v_type v) \<noteq> t then Inl (InvalidType None) else Inr (cast (v_num_data v)))"

definition as_int16 :: "IPCVariant \<Rightarrow> exn + 16 word" where
  "as_int16 = NUM_TYPE_get Int16 ucast"

definition as_uint16 :: "IPCVariant \<Rightarrow> exn + 16 word" where
  "as_uint16 = NUM_TYPE_get UInt16 ucast"

definition as_int32 :: "IPCVariant \<Rightarrow> exn + 32 word" where
  "as_int32 = NUM_TYPE_get Int32 ucast"

definition as_uint32 :: "IPCVariant \<Rightarrow> exn + 32 word" where
  "as_uint32 = NUM_TYPE_get UInt32 ucast"

definition as_int64 :: "IPCVariant \<Rightarrow> exn + 64 word" where
  "as_int64 = NUM_TYPE_get Int64 (\<lambda>n. n)"

definition as_uint64 :: "IPCVariant \<Rightarrow> exn + 64 word" where
  "as_uint64 = NUM_TYPE_get UInt64 (\<lambda>n. n)"

definition as_double :: "'d double_conv \<Rightarrow> IPCVariant \<Rightarrow> exn + 'd" where
  "as_double cv = NUM_TYPE_get Double (double_of_uint64 cv)"

definition as_uint8 :: "IPCVariant \<Rightarrow> exn + 8 word" where
  "as_uint8 = NUM_TYPE_get Byte ucast"

text \<open>
  \<^verbatim>\<open>operator bool() const\<close> is written out by hand in the header and returns \<^verbatim>\<open>false\<close> where
  the macro would throw.
\<close>

definition as_bool :: "IPCVariant \<Rightarrow> exn + bool" where
  "as_bool v =
     (if primaryType (v_type v) \<noteq> Boolean then Inr False else Inr (v_num_data v \<noteq> 0))"

definition not_string_kind :: "IPCVariant \<Rightarrow> bool" where
  "not_string_kind v =
     (primaryType (v_type v) \<noteq> String \<and> primaryType (v_type v) \<noteq> Signature \<and>
      primaryType (v_type v) \<noteq> ObjectPath)"

definition as_string :: "IPCVariant \<Rightarrow> exn + string" where
  "as_string v = (if not_string_kind v then Inl (InvalidType None) else Inr (v_string_data v))"

text \<open>
  \<^verbatim>\<open>explicit operator const char*() const\<close>: the result is read as a C string, which ends at
  the first NUL character.
\<close>

definition as_c_str :: "IPCVariant \<Rightarrow> exn + string" where
  "as_c_str v =
     (if not_string_kind v then Inl (InvalidType None)
      else Inr (takeWhile (\<lambda>c. c \<noteq> CHR 0x00) (v_string_data v)))"

text \<open>\<^verbatim>\<open>explicit operator const std::vector<IPCVariant>&() const\<close>: the test is on \<^verbatim>\<open>Dict\<close>.\<close>

definition as_vector :: "IPCVariant \<Rightarrow> exn + IPCVariant list" where
  "as_vector v =
     (if primaryType (v_type v) \<noteq> Dict then Inl (InvalidType None) else Inr (v_array v))"

text \<open>\<^verbatim>\<open>explicit operator IPCVariantDict() const\<close>.\<close>

definition as_dict :: "IPCVariant \<Rightarrow> exn + IPCVariantDict" where
  "as_dict v =
     (if primaryType (v_type v) \<noteq> Dict then Inl (InvalidType None) else Inr (v_dict v))"

text \<open>
  The typed assignments, \<^verbatim>\<open>operator=(const x& other)\<close> of \<^verbatim>\<open>TYPE_OVERLOAD\<close>:
  \<^verbatim>\<open>if(c) throw InvalidType(); v = other; return *this;\<close>.
\<close>

definition NUM_TYPE_assign :: "Type \<Rightarrow> IPCVariant \<Rightarrow> 64 word \<Rightarrow> exn + IPCVariant" where
  "NUM_TYPE_assign t v other =
     (if primaryType (v_type v) \<noteq> t then Inl (InvalidType None)
      else Inr (IPCVariant (v_array v) (v_dict v) other (v_string_data v) (v_type v)))"

definition assign_int16 :: "IPCVariant \<Rightarrow> 16 word \<Rightarrow> exn + IPCVariant" where
  "assign_int16 v other = NUM_TYPE_assign Int16 v (scast other)"

definition assign_uint16 :: "IPCVariant \<Rightarrow> 16 word \<Rightarrow> exn + IPCVariant" where
  "assign_uint16 v other = NUM_TYPE_assign UInt16 v (ucast other)"

definition assign_int32 :: "IPCVariant \<Rightarrow> 32 word \<Rightarrow> exn + IPCVariant" where
  "assign_int32 v other = NUM_TYPE_assign Int32 v (scast other)"

definition assign_uint32 :: "IPCVariant \<Rightarrow> 32 word \<Rightarrow> exn + IPCVariant" where
  "assign_uint32 v other = NUM_TYPE_assign UInt32 v (ucast other)"

definition assign_int64 :: "IPCVariant \<Rightarrow> 64 word \<Rightarrow> exn + IPCVariant" where
  "assign_int64 v other = NUM_TYPE_assign Int64 v other"

definition assign_uint64 :: "IPCVariant \<Rightarrow> 64 word \<Rightarrow> exn + IPCVariant" where
  "assign_uint64 v other = NUM_TYPE_assign UInt64 v other"

definition assign_double :: "'d double_conv \<Rightarrow> IPCVariant \<Rightarrow> 'd \<Rightarrow> exn + IPCVariant" where
  "assign_double cv v other = NUM_TYPE_assign Double v (uint64_of_double cv other)"

definition assign_uint8 :: "IPCVariant \<Rightarrow> 8 word \<Rightarrow> exn + IPCVariant" where
  "assign_uint8 v other = NUM_TYPE_assign Byte v (ucast other)"

definition assign_bool :: "IPCVariant \<Rightarrow> bool \<Rightarrow> exn + IPCVariant" where
  "assign_bool v other = NUM_TYPE_assign Boolean v (if other then 1 else 0)"

definition assign_string :: "IPCVariant \<Rightarrow> string \<Rightarrow> exn + IPCVariant" where
  "assign_string v other =
     (if not_string_kind v then Inl (InvalidType None)
      else Inr (IPCVariant (v_array v) (v_dict v) (v_num_data v) other (v_type v)))"

text \<open>\<^verbatim>\<open>IPCVariant::operator=(const std::vector<IPCVariant>& other)\<close>.\<close>

definition assign_vector :: "IPCVariant \<Rightarrow> IPCVariant list \<Rightarrow> exn + IPCVariant" where
  "assign_vector v other =
     (case vector_check (v_type v) other of
        Inl e \<Rightarrow> Inl e
      | Inr u \<Rightarrow> Inr (IPCVariant other (v_dict v) (v_num_data v) (v_string_data v) (v_type v)))"

text \<open>\<^verbatim>\<open>IPCVariant::operator=(const IPCVariantDict& other)\<close>.\<close>

definition assign_dict :: "IPCVariant \<Rightarrow> IPCVariantDict \<Rightarrow> exn + IPCVariant" where
  "assign_dict v other =
     (if primaryType (v_type v) \<noteq> Dict then Inl (InvalidType None)
      else case dictType (v_type v) of
             Inl e \<Rightarrow> Inl e
           | Inr dict_format \<Rightarrow>
               (case dict_check_assign dict_format other of
                  Inl e \<Rightarrow> Inl e
                | Inr u \<Rightarrow>
                    Inr (IPCVariant (v_array v) other (v_num_data v) (v_string_data v)
                           (v_type v))))"

text \<open>
  \<^verbatim>\<open>IPCVariant::operator=(const IPCVariant& o)\<close>: the five fields are copied one by one, the
  type first; the result is the new value of \<^verbatim>\<open>*this\<close>.
\<close>

definition set_type :: "IPCVariant \<Rightarrow> TypeInfo \<Rightarrow> IPCVariant" where
  "set_type v t = IPCVariant (v_array v) (v_dict v) (v_num_data v) (v_string_data v) t"

definition set_num_data :: "IPCVariant \<Rightarrow> 64 word \<Rightarrow> IPCVariant" where
  "set_num_data v n = IPCVariant (v_array v) (v_dict v) n (v_string_data v) (v_type v)"

definition set_string_data :: "IPCVariant \<Rightarrow> string \<Rightarrow> IPCVariant" where
  "set_string_data v s = IPCVariant (v_array v) (v_dict v) (v_num_data v) s (v_type v)"

definition set_array :: "IPCVariant \<Rightarrow> IPCVariant list \<Rightarrow> IPCVariant" where
  "set_array v a = IPCVariant a (v_dict v) (v_num_data v) (v_string_data v) (v_type v)"

definition set_dict :: "IPCVariant \<Rightarrow> IPCVariantDict \<Rightarrow> IPCVariant" where
  "set_dict v d = IPCVariant (v_array v) d (v_num_data v) (v_string_data v) (v_type v)"

definition assign_variant :: "IPCVariant \<Rightarrow> IPCVariant \<Rightarrow> IPCVariant" where
  "assign_variant this other =
     set_dict
       (set_array
          (set_string_data
             (set_num_data (set_type this (v_type other)) (v_num_data other))
             (v_string_data other))
          (v_array other))
       (v_dict other)"

text \<open>
  \<^verbatim>\<open>IPCVariant::operator==(const IPCVariant& other)\<close>. \<open>cmp_by get\<close> is
  \<^verbatim>\<open>(x)(*this) == (x)other\<close> for the accessor \<open>get\<close>; \<open>scalar_eq\<close> holds the cases of the
  \<^verbatim>\<open>switch\<close> that compare one slot (\<open>variant_eq\<close> never calls it on a container kind);
  \<open>variant_eq\<close> is the operator, with the container cases; \<open>elems_eq\<close> is \<^verbatim>\<open>std::equal\<close> over
  two vectors of the same size.

  In the array and struct case the cast \<^verbatim>\<open>(const std::vector<IPCVariant>&)(*this)\<close> binds
  through the conversion function to \<^verbatim>\<open>const std::vector<IPCVariant>&\<close>. In the dict case the
  cast \<^verbatim>\<open>(const IPCVariantDict&)(*this)\<close> has no conversion function to use: the only one,
  \<^verbatim>\<open>explicit operator IPCVariantDict()\<close>, returns by value, and a reference binds to the
  result of such a function by the rules of copy-initialisation, which skip explicit
  functions. The cast therefore re-reads the Variant object itself as a map, and the
  comparison of the two maps is undefined.
\<close>

definition cmp_by :: "(IPCVariant \<Rightarrow> exn + 'a) \<Rightarrow> IPCVariant \<Rightarrow> IPCVariant \<Rightarrow> exn + bool" where
  "cmp_by get this other =
     (case get this of
        Inl e \<Rightarrow> Inl e
      | Inr x \<Rightarrow> (case get other of Inl e \<Rightarrow> Inl e | Inr y \<Rightarrow> Inr (x = y)))"

definition scalar_eq :: "'d double_conv \<Rightarrow> IPCVariant \<Rightarrow> IPCVariant \<Rightarrow> exn + bool" where
  "scalar_eq cv this other =
     (case primaryType (v_type this) of
        Int16 \<Rightarrow> cmp_by as_int16 this other
      | UInt16 \<Rightarrow> cmp_by as_uint16 this other
      | Int32 \<Rightarrow> cmp_by as_int32 this other
      | UInt32 \<Rightarrow> cmp_by as_uint32 this other
      | Int64 \<Rightarrow> cmp_by as_int64 this other
      | UInt64 \<Rightarrow> cmp_by as_uint64 this other
      | Double \<Rightarrow> cmp_by (as_double cv) this other
      | Byte \<Rightarrow> cmp_by as_uint8 this other
      | String \<Rightarrow> cmp_by as_string this other
      | Signature \<Rightarrow> cmp_by as_string this other
      | ObjectPath \<Rightarrow> cmp_by as_string this other
      | Boolean \<Rightarrow> cmp_by as_bool this other
      | None_type \<Rightarrow> Inr True
      | _ \<Rightarrow> Inl UndefinedBehaviour)"

function variant_eq :: "'d double_conv \<Rightarrow> IPCVariant \<Rightarrow> IPCVariant \<Rightarrow> exn + bool"
  and elems_eq :: "'d double_conv \<Rightarrow> IPCVariant list \<Rightarrow> IPCVariant list \<Rightarrow> exn + bool"
where
  "variant_eq cv this other =
     (if TypeInfo_neq (v_type this) (v_type other) then Inr False
      else if primaryType (v_type this) = Array \<or> primaryType (v_type this) = Struct then
        (case as_vector this of
           Inl e \<Rightarrow> Inl e
         | Inr xs \<Rightarrow>
             (case as_vector other of
                Inl e \<Rightarrow> Inl e
              | Inr ys \<Rightarrow> if length xs \<noteq> length ys then Inr False else elems_eq cv xs ys))
      else if primaryType (v_type this) = Dict then Inl UndefinedBehaviour
      else scalar_eq cv this other)"
| "elems_eq cv [] ys = Inr True"
| "elems_eq cv (x # xs) [] = Inr True"
| "elems_eq cv (x # xs) (y # ys) =
     (case variant_eq cv x y of
        Inl e \<Rightarrow> Inl e
      | Inr b \<Rightarrow> if b then elems_eq cv xs ys else Inr False)"
  by pat_completeness auto

termination
proof (relation "measure (\<lambda>x. case x of
          Inl (cv, a, b) \<Rightarrow> size a
        | Inr (cv, xs, ys) \<Rightarrow> size_list size xs)", goal_cases)
  case 1
  show ?case by simp
next
  case (2 cv this other x2 x2a)
  then show ?case by (cases this) (auto simp: as_vector_def split: if_splits)
next
  case (3 cv x xs y ys)
  show ?case by simp
next
  case (4 cv x xs y ys x2)
  show ?case by simp
qed

declare variant_eq.simps [simp del]

text \<open>\<^verbatim>\<open>operator!=(const IPCVariant& other)\<close>: \<^verbatim>\<open>!(*this == other)\<close>.\<close>

definition variant_neq :: "'d double_conv \<Rightarrow> IPCVariant \<Rightarrow> IPCVariant \<Rightarrow> exn + bool" where
  "variant_neq cv this other =
     (case variant_eq cv this other of Inl e \<Rightarrow> Inl e | Inr b \<Rightarrow> Inr (\<not> b))"

text \<open>
  \<^verbatim>\<open>std::map::operator[]\<close> on an \<^verbatim>\<open>IPCVariantDict\<close>. On an empty map no key is compared and the
  entry \<^verbatim>\<open>(key, IPCVariant())\<close> is inserted. On a non-empty map the lookup calls the
  comparator \<^verbatim>\<open>std::equal_to<>\<close>, which is not a strict weak ordering, so C++ leaves the
  result undefined. The result is the value found and the new map.
\<close>

definition map_subscript :: "IPCVariantDict \<Rightarrow> IPCVariant \<Rightarrow> exn + (IPCVariant \<times> IPCVariantDict)" where
  "map_subscript m key =
     (if m = [] then Inr (IPCVariant_default, [(key, IPCVariant_default)])
      else Inl UndefinedBehaviour)"

text \<open>
  \<^verbatim>\<open>dict[key] = v\<close> on an \<^verbatim>\<open>IPCVariantDict\<close>: \<^verbatim>\<open>operator[]\<close>, then the whole-object assignment
  to the value it refers to.
\<close>

definition map_subscript_assign ::
  "IPCVariantDict \<Rightarrow> IPCVariant \<Rightarrow> IPCVariant \<Rightarrow> exn + IPCVariantDict" where
  "map_subscript_assign m key v =
     (if m = [] then Inr [(key, assign_variant IPCVariant_default v)]
      else Inl UndefinedBehaviour)"

text \<open>
  \<^verbatim>\<open>IPCVariant& IPCVariant::operator[](ipc::IPCVariant& key)\<close>: the referenced value and the
  Variant after the call.
\<close>

definition subscript_key :: "IPCVariant \<Rightarrow> IPCVariant \<Rightarrow> exn + (IPCVariant \<times> IPCVariant)" where
  "subscript_key this key =
     (if primaryType (v_type this) \<noteq> Dict then Inl (InvalidType None)
      else case map_subscript (v_dict this) key of
             Inl e \<Rightarrow> Inl e
           | Inr r \<Rightarrow> Inr (fst r, set_dict this (snd r)))"

text \<open>\<^verbatim>\<open>IPCVariant& IPCVariant::operator[](std::size_t index)\<close>.\<close>

definition subscript_index :: "IPCVariant \<Rightarrow> nat \<Rightarrow> exn + IPCVariant" where
  "subscript_index this index =
     (if primaryType (v_type this) \<noteq> Array \<and> primaryType (v_type this) \<noteq> Struct
      then Inl (InvalidType None)
      else if \<not> index < length (v_array this) then Inl AssertionFailure
      else Inr (v_array this ! index))"

text \<open>
  The invariant of a composite Variant: every child of an Array has the Array's element
  type, the children of a Struct have the slot types in order, every entry of a Dict has
  the Dict's key and value types. Types are compared as \<^verbatim>\<open>TypeInfo::operator==\<close> does.
\<close>

definition element_typed :: "TypeInfo \<Rightarrow> IPCVariant \<Rightarrow> bool" where
  "element_typed ty c =
     (case array_type ty of None \<Rightarrow> False | Some t \<Rightarrow> TypeInfo_eq (v_type c) t)"

definition entry_typed :: "TypeInfo \<Rightarrow> IPCVariant \<times> IPCVariant \<Rightarrow> bool" where
  "entry_typed ty e =
     (case (dict_key ty, dict_value ty) of
        (Some k, Some w) \<Rightarrow> TypeInfo_eq (v_type (fst e)) k \<and> TypeInfo_eq (v_type (snd e)) w
      | _ \<Rightarrow> False)"

definition children_typed :: "IPCVariant \<Rightarrow> bool" where
  "children_typed v =
     (case primaryType (v_type v) of
        Array \<Rightarrow> list_all (element_typed (v_type v)) (v_array v)
      | Struct \<Rightarrow> list_all2 (\<lambda>c t. TypeInfo_eq (v_type c) t) (v_array v) (struct_types (v_type v))
      | Dict \<Rightarrow> list_all (entry_typed (v_type v)) (v_dict v)
      | _ \<Rightarrow> True)"

section \<open>The wire format\<close>

text \<open>
  GLib's \<^verbatim>\<open>GVariant\<close> is outside the repository. The model has the values that \<^verbatim>\<open>toGVariant\<close>
  builds: the twelve basic kinds, arrays (with GLib's element type string) and tuples.
\<close>

datatype 'd GVariant =
    GInt16 "16 word" | GUInt16 "16 word" | GInt32 "32 word" | GUInt32 "32 word"
  | GInt64 "64 word" | GUInt64 "64 word" | GDouble 'd | GByte "8 word"
  | GString string | GSignature string | GObjectPath string | GBoolean bool
  | GArray string "'d GVariant list" | GTuple "'d GVariant list"

fun g_variant_get_type_string :: "'d GVariant \<Rightarrow> string" where
  "g_variant_get_type_string (GInt16 x) = ''n''"
| "g_variant_get_type_string (GUInt16 x) = ''q''"
| "g_variant_get_type_string (GInt32 x) = ''i''"
| "g_variant_get_type_string (GUInt32 x) = ''u''"
| "g_variant_get_type_string (GInt64 x) = ''x''"
| "g_variant_get_type_string (GUInt64 x) = ''t''"
| "g_variant_get_type_string (GDouble x) = ''d''"
| "g_variant_get_type_string (GByte x) = ''y''"
| "g_variant_get_type_string (GString x) = ''s''"
| "g_variant_get_type_string (GSignature x) = ''g''"
| "g_variant_get_type_string (GObjectPath x) = ''o''"
| "g_variant_get_type_string (GBoolean x) = ''b''"
| "g_variant_get_type_string (GArray t xs) = CHR ''a'' # t"
| "g_variant_get_type_string (GTuple xs) =
     ''('' @ concat (map g_variant_get_type_string xs) @ '')''"

text \<open>
  \<^verbatim>\<open>g_variant_type_string_is_valid\<close>, after GLib's scanner: \<open>gvt_scan\<close> reads one complete type
  and returns the rest of the string, \<open>gvt_tuple\<close> reads the items of a tuple up to its
  \<^verbatim>\<open>)\<close>. The first argument bounds the recursion; twice the length of the string is
  enough.
\<close>

fun gvt_scan :: "nat \<Rightarrow> string \<Rightarrow> string option"
  and gvt_tuple :: "nat \<Rightarrow> string \<Rightarrow> string option"
where
  "gvt_scan 0 s = None"
| "gvt_scan (Suc n) [] = None"
| "gvt_scan (Suc n) (c # s) =
     (if c = CHR ''('' then gvt_tuple n s
      else if c = CHR ''{'' then
        (case s of
           [] \<Rightarrow> None
         | k # s' \<Rightarrow>
             if k \<notin> set ''bynqihuxtdsog?'' then None
             else (case gvt_scan n s' of
                     Some (c2 # r) \<Rightarrow> if c2 = CHR ''}'' then Some r else None
                   | _ \<Rightarrow> None))
      else if c = CHR ''m'' \<or> c = CHR ''a'' then gvt_scan n s
      else if c \<in> set ''bynqiuxtdsogvr*?h'' then Some s
      else None)"
| "gvt_tuple 0 s = None"
| "gvt_tuple (Suc n) [] = None"
| "gvt_tuple (Suc n) (c # s) =
     (if c = CHR '')'' then Some s
      else (case gvt_scan n (c # s) of
              None \<Rightarrow> None
            | Some r \<Rightarrow> gvt_tuple n r))"

definition g_variant_type_string_is_valid :: "string \<Rightarrow> bool" where
  "g_variant_type_string_is_valid s = (gvt_scan (Suc (2 * length s)) s = Some [])"

text \<open>\<^verbatim>\<open>g_variant_type_new\<close>: \<open>None\<close> is the \<^verbatim>\<open>NULL\<close> GLib returns for an invalid type string.\<close>

definition g_variant_type_new :: "string \<Rightarrow> string option" where
  "g_variant_type_new s = (if g_variant_type_string_is_valid s then Some s else None)"

text \<open>
  \<^verbatim>\<open>g_variant_new_array(child_type, children, n)\<close>: GLib requires a child type or a child,
  takes the type of the first child when no type is given, and requires every child to have
  that type; where GLib logs a critical error and returns \<^verbatim>\<open>NULL\<close> the model stops with
  \<open>GLibCritical\<close>.
\<close>

definition g_variant_new_array :: "string option \<Rightarrow> 'd GVariant list \<Rightarrow> exn + 'd GVariant" where
  "g_variant_new_array child_type children =
     (case (child_type, children) of
        (None, []) \<Rightarrow> Inl GLibCritical
      | _ \<Rightarrow>
          (let t = (case child_type of
                      Some t \<Rightarrow> t
                    | None \<Rightarrow> g_variant_get_type_string (hd children))
           in if list_all (\<lambda>c. g_variant_get_type_string c = t) children
              then Inr (GArray t children) else Inl GLibCritical))"

text \<open>\<^verbatim>\<open>g_variant_n_children\<close> and \<^verbatim>\<open>g_variant_get_child_value\<close> on a container.\<close>

fun g_variant_children :: "'d GVariant \<Rightarrow> 'd GVariant list" where
  "g_variant_children (GArray t xs) = xs"
| "g_variant_children (GTuple xs) = xs"
| "g_variant_children g = []"

definition g_variant_get_child_value :: "'d GVariant \<Rightarrow> nat \<Rightarrow> exn + 'd GVariant" where
  "g_variant_get_child_value g i =
     (if i < length (g_variant_children g) then Inr (g_variant_children g ! i)
      else Inl GLibCritical)"

text \<open>
  The getters for the basic kinds. \<^verbatim>\<open>translateGVariant\<close> picks the getter from the type string
  of the value, so the other equation (GLib returns 0 after a critical error) is never used
  by it.
\<close>

fun g_variant_get_int16 :: "'d GVariant \<Rightarrow> 16 word" where
  "g_variant_get_int16 (GInt16 x) = x"
| "g_variant_get_int16 g = 0"

fun g_variant_get_uint16 :: "'d GVariant \<Rightarrow> 16 word" where
  "g_variant_get_uint16 (GUInt16 x) = x"
| "g_variant_get_uint16 g = 0"

fun g_variant_get_int32 :: "'d GVariant \<Rightarrow> 32 word" where
  "g_variant_get_int32 (GInt32 x) = x"
| "g_variant_get_int32 g = 0"

fun g_variant_get_uint32 :: "'d GVariant \<Rightarrow> 32 word" where
  "g_variant_get_uint32 (GUInt32 x) = x"
| "g_variant_get_uint32 g = 0"

fun g_variant_get_int64 :: "'d GVariant \<Rightarrow> 64 word" where
  "g_variant_get_int64 (GInt64 x) = x"
| "g_variant_get_int64 g = 0"

fun g_variant_get_uint64 :: "'d GVariant \<Rightarrow> 64 word" where
  "g_variant_get_uint64 (GUInt64 x) = x"
| "g_variant_get_uint64 g = 0"

fun g_variant_get_double :: "'d double_conv \<Rightarrow> 'd GVariant \<Rightarrow> 'd" where
  "g_variant_get_double cv (GDouble x) = x"
| "g_variant_get_double cv g = double_of_uint64 cv 0"

fun g_variant_get_byte :: "'d GVariant \<Rightarrow> 8 word" where
  "g_variant_get_byte (GByte x) = x"
| "g_variant_get_byte g = 0"

fun g_variant_get_boolean :: "'d GVariant \<Rightarrow> bool" where
  "g_variant_get_boolean (GBoolean x) = x"
| "g_variant_get_boolean g = False"

section \<open>VariantTranslator\<close>

text \<open>\<^verbatim>\<open>std::string::replace(pos, len, str)\<close> for \<open>pos \<le> size\<close>.\<close>

definition str_replace :: "string \<Rightarrow> nat \<Rightarrow> nat \<Rightarrow> string \<Rightarrow> string" where
  "str_replace s pos len r = take pos s @ r @ drop (pos + len) s"

text \<open>
  The head of \<^verbatim>\<open>translateGVariant\<close>: the type of the wire value, with an array of 2-tuples
  re-read as a dict.
\<close>

definition wire_type :: "'d GVariant \<Rightarrow> exn + TypeInfo" where
  "wire_type variant =
     (case TypeInfo_of_string (g_variant_get_type_string variant) of
        Inl e \<Rightarrow> Inl e
      | Inr ty \<Rightarrow>
          if primaryType ty = Array then
            (case arrayType ty of
               Inl e \<Rightarrow> Inl e
             | Inr elem_type \<Rightarrow>
                 if primaryType elem_type = Struct then
                   (case structFormat elem_type of
                      Inl e \<Rightarrow> Inl e
                    | Inr fmt \<Rightarrow>
                        if length fmt = 2 then
                          (let ts = typeSignature ty;
                               ts1 = str_replace ts (length ts - 1) 1 ''}'';
                               ts2 = str_replace ts1 0 2 ''{''
                           in TypeInfo_of_string ts2)
                        else Inr ty)
                 else Inr ty)
          else Inr ty)"

text \<open>
  The cases of the \<^verbatim>\<open>switch\<close> of \<^verbatim>\<open>translateGVariant\<close> for the basic kinds. For the three
  string kinds the code builds \<^verbatim>\<open>std::string(g_variant_get_string(variant, &length), length)\<close>
  with the local \<^verbatim>\<open>length\<close> uninitialised: the two arguments are evaluated in no fixed order,
  and when the second is read before the call in the first has set it, the length is an
  uninitialised value. The result is undefined.
\<close>

definition translate_basic :: "'d double_conv \<Rightarrow> TypeInfo \<Rightarrow> 'd GVariant \<Rightarrow> exn + IPCVariant" where
  "translate_basic cv ty variant =
     (case primaryType ty of
        None_type \<Rightarrow> Inl (RuntimeError ''invalid none typeinfo'')
      | Int16 \<Rightarrow> IPCVariant_of_int16 (g_variant_get_int16 variant)
      | UInt16 \<Rightarrow> IPCVariant_of_uint16 (g_variant_get_uint16 variant)
      | Int32 \<Rightarrow> IPCVariant_of_int32 (g_variant_get_int32 variant)
      | UInt32 \<Rightarrow> IPCVariant_of_uint32 (g_variant_get_uint32 variant)
      | Int64 \<Rightarrow> IPCVariant_of_int64 (g_variant_get_int64 variant)
      | UInt64 \<Rightarrow> IPCVariant_of_uint64 (g_variant_get_uint64 variant)
      | Double \<Rightarrow> IPCVariant_of_double cv (g_variant_get_double cv variant)
      | Byte \<Rightarrow> IPCVariant_of_uint8 (g_variant_get_byte variant)
      | String \<Rightarrow> Inl UndefinedBehaviour
      | Signature \<Rightarrow> Inl UndefinedBehaviour
      | ObjectPath \<Rightarrow> Inl UndefinedBehaviour
      | Boolean \<Rightarrow> IPCVariant_of_bool (g_variant_get_boolean variant)
      | _ \<Rightarrow> Inl (InvalidType None))"

lemma size_list_member: "x \<in> set xs \<Longrightarrow> f x < Suc (size_list f xs)"
  by (induction xs) auto

lemma size_g_variant_children:
  "x \<in> set (g_variant_children g) \<Longrightarrow> size x < size g"
  by (cases g) (auto dest: size_list_member [where f = size])

lemma size_g_variant_get_child_value:
  "g_variant_get_child_value g i = Inr x \<Longrightarrow> size x < size g"
  by (auto simp: g_variant_get_child_value_def split: if_splits
      intro: size_g_variant_children)

text \<open>
  \<^verbatim>\<open>translateGVariant\<close>. \<open>translate_children\<close> is the loop of the array and struct case (each
  slot of the resized vector is assigned the translated child); \<open>translate_entries\<close> is the
  loop of the dict case, with the map built so far. In \<^verbatim>\<open>dict[translateGVariant(key)] =
  translateGVariant(val)\<close> the right-hand side is evaluated first.
\<close>

function translateGVariant :: "'d double_conv \<Rightarrow> 'd GVariant \<Rightarrow> exn + IPCVariant"
  and translate_children :: "'d double_conv \<Rightarrow> 'd GVariant list \<Rightarrow> exn + IPCVariant list"
  and translate_entries ::
    "'d double_conv \<Rightarrow> 'd GVariant list \<Rightarrow> IPCVariantDict \<Rightarrow> exn + IPCVariantDict"
where
  "translateGVariant cv variant =
     (case wire_type variant of
        Inl e \<Rightarrow> Inl e
      | Inr ty \<Rightarrow>
          if primaryType ty = Array \<or> primaryType ty = Struct then
            (case translate_children cv (g_variant_children variant) of
               Inl e \<Rightarrow> Inl e
             | Inr array \<Rightarrow> IPCVariant_of_vector array ty)
          else if primaryType ty = Dict then
            (case translate_entries cv (g_variant_children variant) [] of
               Inl e \<Rightarrow> Inl e
             | Inr dict \<Rightarrow> IPCVariant_of_dict dict ty)
          else translate_basic cv ty variant)"
| "translate_children cv [] = Inr []"
| "translate_children cv (child # rest) =
     (case translateGVariant cv child of
        Inl e \<Rightarrow> Inl e
      | Inr v \<Rightarrow>
          (case translate_children cv rest of
             Inl e \<Rightarrow> Inl e
           | Inr vs \<Rightarrow> Inr (assign_variant IPCVariant_default v # vs)))"
| "translate_entries cv [] dict = Inr dict"
| "translate_entries cv (element # rest) dict =
     (case g_variant_get_child_value element 0 of
        Inl e \<Rightarrow> Inl e
      | Inr key \<Rightarrow>
          (case g_variant_get_child_value element 1 of
             Inl e \<Rightarrow> Inl e
           | Inr val \<Rightarrow>
               (case translateGVariant cv val of
                  Inl e \<Rightarrow> Inl e
                | Inr v \<Rightarrow>
                    (case translateGVariant cv key of
                       Inl e \<Rightarrow> Inl e
                     | Inr k \<Rightarrow>
                         (case map_subscript_assign dict k v of
                            Inl e \<Rightarrow> Inl e
                          | Inr dict' \<Rightarrow> translate_entries cv rest dict')))))"
  by pat_completeness auto
termination
proof (relation "measure (\<lambda>x. case x of
          Inl (cv, g) \<Rightarrow> 2 * size g
        | Inr (Inl (cv, gs)) \<Rightarrow> 2 * size_list size gs + 1
        | Inr (Inr (cv, gs, d)) \<Rightarrow> 2 * size_list size gs + 1)", goal_cases)
  case 1
  show ?case by simp
next
  case (2 cv variant ty)
  show ?case by (cases variant) auto
next
  case (3 cv variant ty)
  show ?case by (cases variant) auto
next
  case (4 cv child rest)
  show ?case by simp
next
  case (5 cv child rest v)
  show ?case by simp
next
  case (6 cv element rest dict key val)
  then show ?case using size_g_variant_get_child_value [of element 1 val] by simp
next
  case (7 cv element rest dict key val v)
  then show ?case using size_g_variant_get_child_value [of element 0 key] by simp
next
  case (8 cv element rest dict key val v k dict')
  show ?case by simp
qed

declare translateGVariant.simps [simp del]

text \<open>The cases of the \<^verbatim>\<open>switch\<close> of \<^verbatim>\<open>toGVariant\<close> for the basic kinds.\<close>

definition to_basic :: "'d double_conv \<Rightarrow> IPCVariant \<Rightarrow> exn + 'd GVariant" where
  "to_basic cv ipc_variant =
     (case primaryType (v_type ipc_variant) of
        None_type \<Rightarrow> Inl (RuntimeError ''invalid none typeinfo'')
      | Int16 \<Rightarrow> map_sum id GInt16 (as_int16 ipc_variant)
      | UInt16 \<Rightarrow> map_sum id GUInt16 (as_uint16 ipc_variant)
      | Int32 \<Rightarrow> map_sum id GInt32 (as_int32 ipc_variant)
      | UInt32 \<Rightarrow> map_sum id GUInt32 (as_uint32 ipc_variant)
      | Int64 \<Rightarrow> map_sum id GInt64 (as_int64 ipc_variant)
      | UInt64 \<Rightarrow> map_sum id GUInt64 (as_uint64 ipc_variant)
      | Double \<Rightarrow> map_sum id GDouble (as_double cv ipc_variant)
      | Byte \<Rightarrow> map_sum id GByte (as_uint8 ipc_variant)
      | String \<Rightarrow> map_sum id GString (as_c_str ipc_variant)
      | Signature \<Rightarrow> map_sum id GSignature (as_c_str ipc_variant)
      | ObjectPath \<Rightarrow> map_sum id GObjectPath (as_c_str ipc_variant)
      | Boolean \<Rightarrow> map_sum id GBoolean (as_bool ipc_variant)
      | _ \<Rightarrow> Inl AssertionFailure)"

text \<open>
  \<^verbatim>\<open>toGVariant\<close>. \<open>toGVariant_list\<close> is the loop over the children of an array or struct.
  The dict case starts with \<^verbatim>\<open>auto dict = (const IPCVariantDict&)ipc_variant;\<close>, the cast that
  re-reads the Variant object as a map (see \<open>variant_eq\<close>); the copy of that map, and with
  it the rest of the case, is undefined. GLib's checks of the text of a string, a signature
  and an object path are not modelled.
\<close>

function toGVariant :: "'d double_conv \<Rightarrow> IPCVariant \<Rightarrow> exn + 'd GVariant"
  and toGVariant_list :: "'d double_conv \<Rightarrow> IPCVariant list \<Rightarrow> exn + 'd GVariant list"
where
  "toGVariant cv ipc_variant =
     (if primaryType (v_type ipc_variant) = Array then
        (case as_vector ipc_variant of
           Inl e \<Rightarrow> Inl e
         | Inr array \<Rightarrow>
             (case arrayType (v_type ipc_variant) of
                Inl e \<Rightarrow> Inl e
              | Inr at \<Rightarrow>
                  (case toGVariant_list cv array of
                     Inl e \<Rightarrow> Inl e
                   | Inr garray \<Rightarrow>
                       g_variant_new_array (g_variant_type_new (typeSignature at)) garray)))
      else if primaryType (v_type ipc_variant) = Struct then
        (case as_vector ipc_variant of
           Inl e \<Rightarrow> Inl e
         | Inr vstruct \<Rightarrow>
             (case toGVariant_list cv vstruct of
                Inl e \<Rightarrow> Inl e
              | Inr gstruct \<Rightarrow> Inr (GTuple gstruct)))
      else if primaryType (v_type ipc_variant) = Dict then Inl UndefinedBehaviour
      else to_basic cv ipc_variant)"
| "toGVariant_list cv [] = Inr []"
| "toGVariant_list cv (x # xs) =
     (case toGVariant cv x of
        Inl e \<Rightarrow> Inl e
      | Inr g \<Rightarrow>
          (case toGVariant_list cv xs of
             Inl e \<Rightarrow> Inl e
           | Inr gs \<Rightarrow> Inr (g # gs)))"
  by pat_completeness auto
termination
proof (relation "measure (\<lambda>x. case x of
          Inl (cv, a) \<Rightarrow> size a
        | Inr (cv, xs) \<Rightarrow> size_list size xs)", goal_cases)
  case 1
  show ?case by simp
next
  case (2 cv ipc_variant array at)
  then show ?case by (cases ipc_variant) (auto simp: as_vector_def split: if_splits)
next
  case (3 cv ipc_variant vstruct)
  then show ?case by (cases ipc_variant) (auto simp: as_vector_def split: if_splits)
next
  case (4 cv x xs)
  show ?case by simp
next
  case (5 cv x xs g)
  show ?case by simp
qed

declare toGVariant.simps [simp del]

section \<open>IPCInterface\<close>

type_synonym IPCFunctionArgs = "IPCVariant list"
type_synonym IPCArgsInfo = "(string \<times> TypeInfo) list"

record IPCFunction =
  f_args :: IPCArgsInfo
  f_responses :: IPCArgsInfo
  f_function :: "IPCFunctionArgs \<Rightarrow> exn + IPCFunctionArgs"

record IPCProperty =
  p_property :: IPCVariant
  p_type :: TypeInfo
  p_readable :: bool
  p_writable :: bool

text \<open>
  \<^verbatim>\<open>class IPCInterface\<close>. The three \<^verbatim>\<open>std::map\<close>s keyed by name are lists of entries in key
  order; \<^verbatim>\<open>IPCServer* _server\<close> is \<open>None\<close> when null and otherwise the address of the server.
\<close>

record IPCInterface =
  if_functions :: "(string \<times> IPCFunction) list"
  if_properties :: "(string \<times> IPCProperty) list"
  if_signals :: "(string \<times> IPCArgsInfo) list"
  if_node :: string
  if_name :: string
  if_server :: "nat option"

definition LOGID_DBUS_NAME :: string where
  "LOGID_DBUS_NAME = ''pizza.pixl.logiops''"

definition LOGID_DBUS_OBJECTMANAGER_NODE :: string where
  "LOGID_DBUS_OBJECTMANAGER_NODE = ''/pizza/pixl/logiops''"

text \<open>\<^verbatim>\<open>IPCInterface::IPCInterface(node, name)\<close>.\<close>

definition IPCInterface_new :: "string \<Rightarrow> string \<Rightarrow> IPCInterface" where
  "IPCInterface_new node name =
     \<lparr>if_functions = [], if_properties = [], if_signals = [],
      if_node = (if node = [] then LOGID_DBUS_OBJECTMANAGER_NODE
                 else LOGID_DBUS_OBJECTMANAGER_NODE @ ''/'' @ node),
      if_name = (if name = [] then LOGID_DBUS_NAME else LOGID_DBUS_NAME @ ''.'' @ name),
      if_server = None\<rparr>"

text \<open>
  \<^verbatim>\<open>IPCInterface::setProperty\<close>. \<^verbatim>\<open>throw std::invalid_argument(value)\<close> first converts the
  Variant to \<^verbatim>\<open>std::string\<close>, which itself throws for a Variant that is not of a string kind.
\<close>

definition setProperty :: "IPCInterface \<Rightarrow> string \<Rightarrow> IPCVariant \<Rightarrow> exn + IPCInterface" where
  "setProperty this property value =
     (case map_of (if_properties this) property of
        None \<Rightarrow> Inl (InvalidArgument property)
      | Some p \<Rightarrow>
          if TypeInfo_neq (p_type p) (v_type value) then
            (case as_string value of
               Inl e \<Rightarrow> Inl e
             | Inr s \<Rightarrow> Inl (InvalidArgument s))
          else Inr (this\<lparr>if_properties :=
                  AList.update property (p\<lparr>p_property := assign_variant (p_property p) value\<rparr>)
                    (if_properties this)\<rparr>))"

text \<open>\<^verbatim>\<open>IPCInterface::getProperty\<close>.\<close>

definition getProperty :: "IPCInterface \<Rightarrow> string \<Rightarrow> exn + IPCVariant" where
  "getProperty this property =
     (case map_of (if_properties this) property of
        None \<Rightarrow> Inl (InvalidArgument property)
      | Some p \<Rightarrow> Inr (p_property p))"

section \<open>IPCServer\<close>

text \<open>
  The introspection data \<^verbatim>\<open>_makeInterfaceInfo\<close> builds: the name, and for each method, property
  and signal its name with the names and signatures of its arguments (for a property its
  signature and the two flags).
\<close>

record GDBusInterfaceInfo =
  info_name :: string
  info_methods :: "(string \<times> (string \<times> string) list \<times> (string \<times> string) list) list"
  info_properties :: "(string \<times> string \<times> bool \<times> bool) list"
  info_signals :: "(string \<times> (string \<times> string) list) list"

definition arg_infos :: "IPCArgsInfo \<Rightarrow> (string \<times> string) list" where
  "arg_infos args = map (\<lambda>a. (fst a, typeSignature (snd a))) args"

definition makeInterfaceInfo :: "IPCInterface \<Rightarrow> GDBusInterfaceInfo" where
  "makeInterfaceInfo interface =
     \<lparr>info_name = if_name interface,
      info_methods =
        map (\<lambda>it. (fst it, arg_infos (f_args (snd it)), arg_infos (f_responses (snd it))))
          (if_functions interface),
      info_properties =
        map (\<lambda>it. (fst it, typeSignature (p_type (snd it)), p_readable (snd it),
                    p_writable (snd it)))
          (if_properties interface),
      info_signals = map (\<lambda>it. (fst it, arg_infos (snd it))) (if_signals interface)\<rparr>"

text \<open>
  The bus connection is outside the repository. Its two calls are parameters of the model:
  \<^verbatim>\<open>g_dbus_connection_register_object\<close> returns a registration id, 0 when the registration
  fails; \<^verbatim>\<open>g_dbus_connection_emit_signal\<close> returns whether the signal was sent.
\<close>

record 'd transport =
  register_object :: "string \<Rightarrow> GDBusInterfaceInfo \<Rightarrow> 32 word"
  emit_signal :: "string \<Rightarrow> string \<Rightarrow> string \<Rightarrow> 'd GVariant option \<Rightarrow> bool"

text \<open>\<^verbatim>\<open>struct IPCServer::Interface\<close>; \<^verbatim>\<open>IPCInterface* interface\<close> is an address of the heap.\<close>

record Interface =
  r_interface :: nat
  r_registrationId :: "32 word"
  r_info :: GDBusInterfaceInfo

text \<open>
  \<^verbatim>\<open>class IPCServer\<close>: the registry \<^verbatim>\<open>_nodes\<close>, a map from node to a map from interface name to
  \<^verbatim>\<open>Interface\<close>, as lists of entries with distinct keys.
\<close>

record IPCServer =
  nodes :: "(string \<times> (string \<times> Interface) list) list"

text \<open>The \<^verbatim>\<open>IPCInterface\<close> objects the server points to, by address.\<close>

type_synonym heap = "nat \<rightharpoonup> IPCInterface"

text \<open>\<^verbatim>\<open>IPCServer::registerInterface\<close>.\<close>

definition registerInterface ::
  "'d transport \<Rightarrow> heap \<Rightarrow> IPCServer \<Rightarrow> nat \<Rightarrow> exn + IPCServer" where
  "registerInterface tr h this ipc_interface =
     (case h ipc_interface of
        None \<Rightarrow> Inl NullDereference
      | Some i \<Rightarrow>
          (let info = makeInterfaceInfo i;
               registration_id = register_object tr (if_node i) info;
               inner = (case map_of (nodes this) (if_node i) of None \<Rightarrow> [] | Some m \<Rightarrow> m)
           in Inr (this\<lparr>nodes :=
                     AList.update (if_node i)
                       (AList.update (if_name i)
                          \<lparr>r_interface = ipc_interface, r_registrationId = registration_id,
                           r_info = info\<rparr> inner)
                       (nodes this)\<rparr>)))"

text \<open>\<^verbatim>\<open>IPCServer::unregisterInterface\<close>.\<close>

definition unregisterInterface :: "IPCServer \<Rightarrow> string \<Rightarrow> string \<Rightarrow> IPCServer" where
  "unregisterInterface this node interface =
     (case map_of (nodes this) node of
        None \<Rightarrow> this
      | Some m \<Rightarrow>
          (case map_of m interface of
             None \<Rightarrow> this
           | Some r \<Rightarrow>
               (let m' = AList.delete interface m
                in if m' = [] then this\<lparr>nodes := AList.delete node (nodes this)\<rparr>
                   else this\<lparr>nodes := AList.update node m' (nodes this)\<rparr>)))"

text \<open>\<^verbatim>\<open>IPCInterface::registerInterface\<close>: the interface and the server after the call.\<close>

definition IPCInterface_registerInterface ::
  "'d transport \<Rightarrow> heap \<Rightarrow> IPCServer \<Rightarrow> nat \<Rightarrow> nat \<Rightarrow> exn + (heap \<times> IPCServer)" where
  "IPCInterface_registerInterface tr h srv server this =
     (case h this of
        None \<Rightarrow> Inl NullDereference
      | Some i \<Rightarrow>
          (let h' = h(this \<mapsto> i\<lparr>if_server := Some server\<rparr>)
           in case registerInterface tr h' srv this of
                Inl e \<Rightarrow> Inl e
              | Inr srv' \<Rightarrow> Inr (h', srv')))"

text \<open>
  \<^verbatim>\<open>IPCServer::emitSignal\<close>: the result is the parameters handed to the connection, or the
  exception.
\<close>

definition IPCServer_emitSignal ::
  "'d double_conv \<Rightarrow> 'd transport \<Rightarrow> IPCInterface \<Rightarrow> string \<Rightarrow> IPCFunctionArgs \<Rightarrow>
     exn + 'd GVariant option" where
  "IPCServer_emitSignal cv tr interface signal params =
     (case (if params \<noteq> [] then
              (case toGVariant_list cv params of
                 Inl e \<Rightarrow> Inl e
               | Inr gstruct \<Rightarrow> Inr (Some (GTuple gstruct)))
            else Inr None) of
        Inl e \<Rightarrow> Inl e
      | Inr gparams \<Rightarrow>
          if \<not> emit_signal tr (if_node interface) (if_name interface) signal gparams
          then Inl (RuntimeError ''signal broadcast failed'')
          else Inr gparams)"

text \<open>
  \<^verbatim>\<open>IPCInterface::emitSignal\<close>: \<open>Inr None\<close> when nothing was sent, \<open>Inr (Some p)\<close> when the
  server sent the signal with the parameters \<open>p\<close>.
\<close>

fun signal_args_check :: "IPCArgsInfo \<Rightarrow> IPCFunctionArgs \<Rightarrow> exn + unit" where
  "signal_args_check (a # info) (x # args) =
     (if TypeInfo_neq (v_type x) (snd a) then Inl (InvalidArgument ''type'')
      else signal_args_check info args)"
| "signal_args_check info args = Inr ()"

definition IPCInterface_emitSignal ::
  "'d double_conv \<Rightarrow> 'd transport \<Rightarrow> IPCInterface \<Rightarrow> string \<Rightarrow> IPCFunctionArgs \<Rightarrow>
     exn + 'd GVariant option option" where
  "IPCInterface_emitSignal cv tr this signal args =
     (if if_server this = None then Inr None
      else case map_of (if_signals this) signal of
             None \<Rightarrow> Inl (InvalidArgument signal)
           | Some info \<Rightarrow>
               if length info \<noteq> length args then Inl (InvalidArgument ''args'')
               else (case signal_args_check info args of
                       Inl e \<Rightarrow> Inl e
                     | Inr u \<Rightarrow>
                         (case IPCServer_emitSignal cv tr this signal args of
                            Inl e \<Rightarrow> Inl e
                          | Inr p \<Rightarrow> Inr (Some p))))"

text \<open>The D-Bus errors the property callbacks set with \<^verbatim>\<open>g_set_error\<close>.\<close>

datatype GDBusError =
    G_DBUS_ERROR_FAILED | G_DBUS_ERROR_UNKNOWN_OBJECT | G_DBUS_ERROR_UNKNOWN_INTERFACE
  | G_DBUS_ERROR_UNKNOWN_PROPERTY | G_DBUS_ERROR_INVALID_ARGS | G_DBUS_ERROR_ACCESS_DENIED

text \<open>
  What a property callback leaves behind: its return value, the error it set (if any), and
  the heap of interfaces.
\<close>

record 'r callback_result =
  cb_return :: 'r
  cb_error :: "(GDBusError \<times> string) option"
  cb_heap :: heap

text \<open>
  \<^verbatim>\<open>IPCServer::gdbus_set_property\<close>; \<open>server_ptr\<close> is \<^verbatim>\<open>*(IPCServer**)user_data\<close>. An exception of
  \<^verbatim>\<open>translateGVariant\<close> or \<^verbatim>\<open>setProperty\<close> leaves the callback.
\<close>

definition gdbus_set_property ::
  "'d double_conv \<Rightarrow> heap \<Rightarrow> IPCServer option \<Rightarrow> string \<Rightarrow> string \<Rightarrow> string \<Rightarrow> 'd GVariant \<Rightarrow>
     exn + bool callback_result" where
  "gdbus_set_property cv h server_ptr object_path interface_name property_name value =
     (case server_ptr of
        None \<Rightarrow> Inr \<lparr>cb_return = False, cb_error = Some (G_DBUS_ERROR_FAILED, ''null IPCServer''),
                     cb_heap = h\<rparr>
      | Some srv \<Rightarrow>
     (case map_of (nodes srv) object_path of
        None \<Rightarrow> Inr \<lparr>cb_return = False,
                     cb_error = Some (G_DBUS_ERROR_UNKNOWN_OBJECT, ''Unknown object''),
                     cb_heap = h\<rparr>
      | Some node \<Rightarrow>
     (case map_of node interface_name of
        None \<Rightarrow> Inr \<lparr>cb_return = False,
                     cb_error = Some (G_DBUS_ERROR_UNKNOWN_INTERFACE, ''Unknown interface''),
                     cb_heap = h\<rparr>
      | Some interface \<Rightarrow>
     (case h (r_interface interface) of
        None \<Rightarrow> Inl NullDereference
      | Some i \<Rightarrow>
     (case map_of (if_properties i) property_name of
        None \<Rightarrow> Inr \<lparr>cb_return = False,
                     cb_error = Some (G_DBUS_ERROR_UNKNOWN_PROPERTY, ''Unknown property''),
                     cb_heap = h\<rparr>
      | Some property \<Rightarrow>
     (case translateGVariant cv value of
        Inl e \<Rightarrow> Inl e
      | Inr ipc_variant \<Rightarrow>
          if TypeInfo_neq (v_type ipc_variant) (p_type property) then
            Inr \<lparr>cb_return = False,
                 cb_error = Some (G_DBUS_ERROR_INVALID_ARGS, ''Invalid argument''),
                 cb_heap = h\<rparr>
          else
            (let err = (if \<not> p_writable property
                        then Some (G_DBUS_ERROR_ACCESS_DENIED, ''Property not writable'')
                        else None)
             in case setProperty i property_name ipc_variant of
                  Inl e \<Rightarrow> Inl e
                | Inr i' \<Rightarrow>
                    Inr \<lparr>cb_return = True, cb_error = err,
                         cb_heap = h(r_interface interface \<mapsto> i')\<rparr>)))))))"

text \<open>\<^verbatim>\<open>IPCServer::gdbus_get_property\<close>; the return value \<open>None\<close> is \<^verbatim>\<open>nullptr\<close>.\<close>

definition gdbus_get_property ::
  "'d double_conv \<Rightarrow> heap \<Rightarrow> IPCServer option \<Rightarrow> string \<Rightarrow> string \<Rightarrow> string \<Rightarrow>
     exn + 'd GVariant option callback_result" where
  "gdbus_get_property cv h server_ptr object_path interface_name property_name =
     (case server_ptr of
        None \<Rightarrow> Inr \<lparr>cb_return = None, cb_error = Some (G_DBUS_ERROR_FAILED, ''null IPCServer''),
                     cb_heap = h\<rparr>
      | Some srv \<Rightarrow>
     (case map_of (nodes srv) object_path of
        None \<Rightarrow> Inr \<lparr>cb_return = None,
                     cb_error = Some (G_DBUS_ERROR_UNKNOWN_OBJECT, ''Unknown object''),
                     cb_heap = h\<rparr>
      | Some node \<Rightarrow>
     (case map_of node interface_name of
        None \<Rightarrow> Inr \<lparr>cb_return = None,
                     cb_error = Some (G_DBUS_ERROR_UNKNOWN_INTERFACE, ''Unknown interface''),
                     cb_heap = h\<rparr>
      | Some interface \<Rightarrow>
     (case h (r_interface interface) of
        None \<Rightarrow> Inl NullDereference
      | Some i \<Rightarrow>
     (case map_of (if_properties i) property_name of
        None \<Rightarrow> Inr \<lparr>cb_return = None,
                     cb_error = Some (G_DBUS_ERROR_UNKNOWN_PROPERTY, ''Unknown property''),
                     cb_heap = h\<rparr>
      | Some property \<Rightarrow>
          (let err = (if \<not> p_readable property
                      then Some (G_DBUS_ERROR_ACCESS_DENIED, ''Property not readable'')
                      else None)
           in case getProperty i property_name of
                Inl e \<Rightarrow> Inl e
              | Inr v \<Rightarrow>
                  (case toGVariant cv v of
                     Inl e \<Rightarrow> Inl e
                   | Inr g \<Rightarrow> Inr \<lparr>cb_return = Some g, cb_error = err, cb_heap = h\<rparr>)))))))"

section \<open>Notions used in the statements\<close>

text \<open>
  Bracket balance of a string: \<open>balanced s st\<close> reads \<open>s\<close> with the stack \<open>st\<close> of the
  closing characters that are still owed; a string is balanced when \<open>balanced s []\<close>.
\<close>

fun balanced :: "string \<Rightarrow> char list \<Rightarrow> bool" where
  "balanced [] st = (st = [])"
| "balanced (c # s) st =
     (if c = CHR ''('' then balanced s (CHR '')'' # st)
      else if c = CHR ''{'' then balanced s (CHR ''}'' # st)
      else if c = CHR '')'' \<or> c = CHR ''}'' then
        (case st of [] \<Rightarrow> False | x # st' \<Rightarrow> x = c \<and> balanced s st')
      else balanced s st)"

text \<open>A string is neutral when reading it leaves every stack as it was.\<close>

definition neutral :: "string \<Rightarrow> bool" where
  "neutral s = (\<forall>r st. balanced (s @ r) st = balanced r st)"

text \<open>The part of a struct signature between index \<open>i\<close> and the closing parenthesis.\<close>

definition members_from :: "string \<Rightarrow> nat \<Rightarrow> string" where
  "members_from sig i = take (length sig - 1 - i) (drop i sig)"

section \<open>Example values\<close>

text \<open>
  A stand-in for \<^verbatim>\<open>double\<close> in the concrete examples (none of them holds a double), a bus
  connection that rejects every registration and every signal, and an interface with one
  read-only property \<^verbatim>\<open>dpi\<close> of type UInt32 and value 1, registered with a server.
\<close>

definition example_conv :: "nat double_conv" where
  "example_conv = \<lparr>uint64_of_double = word_of_nat, double_of_uint64 = unat\<rparr>"

definition rejecting_transport :: "nat transport" where
  "rejecting_transport =
     \<lparr>register_object = (\<lambda>node info. 0), emit_signal = (\<lambda>node name signal params. False)\<rparr>"

definition uint32_type :: TypeInfo where
  "uint32_type = TypeInfo UInt32 ''u'' [] None None None"

definition example_interface :: IPCInterface where
  "example_interface =
     (IPCInterface_new ''dev'' ''Device'')
       \<lparr>if_properties :=
          [(''dpi'', \<lparr>p_property = IPCVariant [] [] 1 [] uint32_type, p_type = uint32_type,
                     p_readable = True, p_writable = False\<rparr>)],
        if_server := Some 0\<rparr>"

definition example_server :: IPCServer where
  "example_server =
     \<lparr>nodes = [(if_node example_interface,
                [(if_name example_interface,
                  \<lparr>r_interface = 0, r_registrationId = 1,
                   r_info = makeInterfaceInfo example_interface\<rparr>)])]\<rparr>"

text \<open>
  An interface bound to a server that declares the signal \<^verbatim>\<open>changed\<close> with one argument of
  type UInt32, and a bus connection that rejects exactly one broadcast: the signal
  \<^verbatim>\<open>changed\<close> of that interface with the payload \<^verbatim>\<open>(uint32 2)\<close>.
\<close>

definition signal_interface :: IPCInterface where
  "signal_interface =
     (IPCInterface_new ''dev'' ''Device'')
       \<lparr>if_signals := [(''changed'', [(''value'', uint32_type)])], if_server := Some 0\<rparr>"

definition picky_transport :: "nat transport" where
  "picky_transport =
     \<lparr>register_object = (\<lambda>node info. 1),
      emit_signal = (\<lambda>node name signal params.
        \<not> (node = ''/pizza/pixl/logiops/dev'' \<and> name = ''pizza.pixl.logiops.Device'' \<and>
           signal = ''changed'' \<and> params = Some (GTuple [GUInt32 2])))\<rparr>"

text \<open>
  An array of structs built with the constructors:
  \<^verbatim>\<open>IPCVariant({IPCVariant({IPCVariant((uint16_t)7)}, TypeInfo("(q)"))}, TypeInfo("a(q)"))\<close>.
\<close>

definition array_of_struct :: "exn + IPCVariant" where
  "array_of_struct =
     (case TypeInfo_of_string ''(q)'' of Inl e \<Rightarrow> Inl e | Inr st \<Rightarrow>
      case TypeInfo_of_string ''a(q)'' of Inl e \<Rightarrow> Inl e | Inr at \<Rightarrow>
      case IPCVariant_of_uint16 7 of Inl e \<Rightarrow> Inl e | Inr x \<Rightarrow>
      case IPCVariant_of_vector [x] st of Inl e \<Rightarrow> Inl e | Inr s \<Rightarrow>
        IPCVariant_of_vector [s] at)"

section \<open>Parsing of type signatures\<close>

lemma neutral_Nil: "neutral []"
  by (simp add: neutral_def)

lemma neutral_append: "neutral a \<Longrightarrow> neutral b \<Longrightarrow> neutral (a @ b)"
  by (simp add: neutral_def)

lemma neutral_plain:
  "c \<noteq> CHR ''('' \<Longrightarrow> c \<noteq> CHR ''{'' \<Longrightarrow> c \<noteq> CHR '')'' \<Longrightarrow> c \<noteq> CHR ''}'' \<Longrightarrow> neutral [c]"
  by (simp add: neutral_def)

lemma neutral_paren: "neutral m \<Longrightarrow> neutral (CHR ''('' # m @ [CHR '')''])"
  by (simp add: neutral_def)

lemma neutral_balanced: "neutral s \<Longrightarrow> balanced s []"
  using neutral_def [of s] by (metis append_Nil2 balanced.simps(1))

lemma single_plain:
  "c \<in> set SINGLE_TYPES \<Longrightarrow>
   c \<noteq> CHR ''('' \<and> c \<noteq> CHR ''{'' \<and> c \<noteq> CHR '')'' \<and> c \<noteq> CHR ''}'' \<and> c \<noteq> CHR ''a''"
  by (auto simp: SINGLE_TYPES_def)

lemma special_cases:
  "c \<in> set SPECIAL_TYPES \<longleftrightarrow> c = CHR ''a'' \<or> c = CHR ''('' \<or> c = CHR ''{''"
  by (auto simp: SPECIAL_TYPES_def)

lemma Type_of_char_special:
  "Type_of_char (CHR ''a'') = Array" "Type_of_char (CHR ''('') = Struct"
  "Type_of_char (CHR ''{'') = Dict"
  by (simp_all add: Type_of_char_def)

text \<open>The branches of the constructor, one equation each.\<close>

lemma TypeInfo_of_string_single:
  "sig \<noteq> [] \<Longrightarrow> list_all (\<lambda>c. c \<in> set VALID_CHARS) sig \<Longrightarrow> sig ! 0 \<in> set SINGLE_TYPES \<Longrightarrow>
   TypeInfo_of_string sig =
     (if length sig \<noteq> 1 then Inl (InvalidType (Some sig))
      else Inr (TypeInfo (Type_of_char (sig ! 0)) sig [] None None None))"
  by (subst TypeInfo_of_string.simps) simp

lemma TypeInfo_of_string_array:
  "list_all (\<lambda>c. c \<in> set VALID_CHARS) sig \<Longrightarrow> sig ! 0 = CHR ''a'' \<Longrightarrow> length sig > 1 \<Longrightarrow>
   TypeInfo_of_string sig =
     (case TypeInfo_of_string (substr sig 1 (length sig - 1)) of
        Inl e \<Rightarrow> Inl e
      | Inr t \<Rightarrow> Inr (TypeInfo Array sig [] (Some t) None None))"
  by (subst TypeInfo_of_string.simps)
    (auto simp: special_cases Type_of_char_special SINGLE_TYPES_def)

lemma TypeInfo_of_string_struct:
  "list_all (\<lambda>c. c \<in> set VALID_CHARS) sig \<Longrightarrow> sig ! 0 = CHR ''('' \<Longrightarrow> length sig > 1 \<Longrightarrow>
   TypeInfo_of_string sig =
     (if last sig \<noteq> CHR '')'' then Inl (InvalidType (Some sig))
      else (case struct_loop sig 1 [] of
              Inl e \<Rightarrow> Inl e
            | Inr ts \<Rightarrow> Inr (TypeInfo Struct sig ts None None None)))"
  by (subst TypeInfo_of_string.simps)
    (auto simp: special_cases Type_of_char_special SINGLE_TYPES_def)

lemma TypeInfo_of_string_dict:
  "list_all (\<lambda>c. c \<in> set VALID_CHARS) sig \<Longrightarrow> sig ! 0 = CHR ''{'' \<Longrightarrow> length sig > 1 \<Longrightarrow>
   TypeInfo_of_string sig =
     (if last sig \<noteq> CHR ''}'' then Inl (InvalidType (Some sig))
      else (case dict_key_part sig of
              Inl e \<Rightarrow> Inl e
            | Inr kv \<Rightarrow>
                (case dict_value_part sig (snd kv) of
                   Inl e \<Rightarrow> Inl e
                 | Inr v \<Rightarrow> Inr (TypeInfo Dict sig [] None (Some (fst kv)) (Some v)))))"
  by (subst TypeInfo_of_string.simps)
    (auto simp: special_cases Type_of_char_special SINGLE_TYPES_def)

lemma TypeInfo_of_string_Inr:
  assumes "TypeInfo_of_string sig = Inr t"
  shows "sig \<noteq> []" and "list_all (\<lambda>c. c \<in> set VALID_CHARS) sig"
    and "sig ! 0 \<in> set SINGLE_TYPES \<or> sig ! 0 \<in> set SPECIAL_TYPES"
    and "sig ! 0 \<in> set SINGLE_TYPES \<Longrightarrow> length sig = 1"
    and "sig ! 0 \<notin> set SINGLE_TYPES \<Longrightarrow> length sig > 1"
proof -
  show 1: "sig \<noteq> []"
    using assms by (subst (asm) TypeInfo_of_string.simps) (simp split: if_splits)
  show 2: "list_all (\<lambda>c. c \<in> set VALID_CHARS) sig"
    using assms 1 by (subst (asm) TypeInfo_of_string.simps) (simp split: if_splits)
  show "sig ! 0 \<in> set SINGLE_TYPES \<Longrightarrow> length sig = 1"
    using assms 1 2 by (simp add: TypeInfo_of_string_single split: if_splits)
  have 3: "sig ! 0 \<notin> set SINGLE_TYPES \<Longrightarrow> sig ! 0 \<in> set SPECIAL_TYPES"
    using assms 1 2 by (subst (asm) TypeInfo_of_string.simps) (simp split: if_splits)
  then show "sig ! 0 \<in> set SINGLE_TYPES \<or> sig ! 0 \<in> set SPECIAL_TYPES" by blast
  show "sig ! 0 \<notin> set SINGLE_TYPES \<Longrightarrow> length sig > 1"
  proof -
    assume ns: "sig ! 0 \<notin> set SINGLE_TYPES"
    have "length sig \<noteq> 1"
      using assms 1 2 ns 3 by (subst (asm) TypeInfo_of_string.simps) (simp split: if_splits)
    with 1 show ?thesis by (cases sig) auto
  qed
qed

lemma struct_loop_done:
  "\<not> i < length sig - 1 \<Longrightarrow> struct_loop sig i acc = Inr acc"
  by (subst struct_loop.simps) simp

lemma struct_loop_single:
  "i < length sig - 1 \<Longrightarrow> sig ! i \<in> set SINGLE_TYPES \<Longrightarrow>
   struct_loop sig i acc =
     struct_loop sig (i + 1) (acc @ [TypeInfo (Type_of_char (sig ! i)) [sig ! i] [] None None None])"
  by (subst struct_loop.simps) (simp add: TypeInfo_of_char_def)

lemma struct_loop_special:
  "i < length sig - 1 \<Longrightarrow> sig ! i \<notin> set SINGLE_TYPES \<Longrightarrow> sig ! i \<in> set SPECIAL_TYPES \<Longrightarrow>
   struct_loop sig i acc =
     (case getSpecialEnd sig i of
        Inl e \<Rightarrow> Inl e
      | Inr end \<Rightarrow>
          (if end \<ge> length sig - 1 then Inl (InvalidType (Some sig))
           else (case TypeInfo_of_string (substr sig i (end - i + 1)) of
                   Inl e \<Rightarrow> Inl e
                 | Inr t \<Rightarrow> struct_loop sig (end + 1) (acc @ [t]))))"
  by (subst struct_loop.simps) simp

lemma struct_loop_stray:
  "i < length sig - 1 \<Longrightarrow> sig ! i \<notin> set SINGLE_TYPES \<Longrightarrow> sig ! i \<notin> set SPECIAL_TYPES \<Longrightarrow>
   struct_loop sig i acc = Inl (InvalidType (Some sig))"
  by (subst struct_loop.simps) simp

lemma members_from_done: "\<not> i < length sig - 1 \<Longrightarrow> members_from sig i = []"
  by (simp add: members_from_def)

lemma members_from_step:
  assumes "i < length sig - 1"
  shows "members_from sig i = sig ! i # members_from sig (i + 1)"
proof -
  have "i < length sig" using assms by simp
  then have "drop i sig = sig ! i # drop (Suc i) sig"
    by (simp add: Cons_nth_drop_Suc)
  moreover have "length sig - 1 - i = Suc (length sig - 1 - (i + 1))"
    using assms by simp
  ultimately show ?thesis
    by (simp add: members_from_def)
qed

lemma members_from_skip:
  assumes "i < e" and "e < length sig - 1"
  shows "members_from sig i = substr sig i (e - i + 1) @ members_from sig (e + 1)"
proof -
  have "length sig - 1 - i = (e - i + 1) + (length sig - 1 - (e + 1))"
    using assms by simp
  moreover have "drop (e - i + 1) (drop i sig) = drop (e + 1) sig"
    using assms by simp
  ultimately show ?thesis
    unfolding members_from_def substr_def
    by (metis take_add)
qed

lemma struct_shape:
  assumes "length sig > 1" and "sig ! 0 = CHR ''(''" and "last sig = CHR '')''"
  shows "sig = CHR ''('' # members_from sig 1 @ [CHR '')'']"
proof -
  from assms(1) obtain c rest where sig: "sig = c # rest" and "rest \<noteq> []"
    by (cases sig) auto
  then have "rest = butlast rest @ [last rest]" by simp
  moreover have "last rest = CHR '')''" using assms(3) sig \<open>rest \<noteq> []\<close> by simp
  moreover have "c = CHR ''(''" using assms(2) sig by simp
  moreover have "members_from sig 1 = butlast rest"
    using sig by (simp add: members_from_def butlast_conv_take)
  ultimately show ?thesis using sig by simp
qed

text \<open>
  A string without \<^verbatim>\<open>{\<close> that the constructor accepts is neutral: it is one complete type
  of the grammar of basic kinds, arrays and structs.
\<close>

lemma accepted_neutral:
  shows "CHR ''{'' \<notin> set sig \<Longrightarrow> TypeInfo_of_string sig = Inr t \<Longrightarrow> neutral sig"
    and "CHR ''{'' \<notin> set sig2 \<Longrightarrow> struct_loop sig2 i acc = Inr ts \<Longrightarrow>
         neutral (members_from sig2 i)"
    and "length (sig3 :: string) = length sig3"
    and "length (sig4 :: string) + vs = length sig4 + vs"
proof (induction sig and sig2 i acc and sig3 and sig4 vs arbitrary: t and ts
    rule: TypeInfo_of_string_struct_loop_dict_key_part_dict_value_part.induct)
  case (1 sig)
  note ok = TypeInfo_of_string_Inr [OF "1.prems"(2)]
  show ?case
  proof (cases "sig ! 0 \<in> set SINGLE_TYPES")
    case True
    with ok have "length sig = 1" by simp
    then have "sig = [sig ! 0]" by (cases sig) auto
    moreover have "neutral [sig ! 0]"
      using single_plain [OF True] by (simp add: neutral_plain)
    ultimately show ?thesis by simp
  next
    case False
    with ok have len: "length sig > 1" and sp: "sig ! 0 \<in> set SPECIAL_TYPES" by auto
    have nobrace: "sig ! 0 \<noteq> CHR ''{''"
      using "1.prems"(1) ok(1) by (cases sig) auto
    from sp nobrace consider (arr) "sig ! 0 = CHR ''a''" | (str) "sig ! 0 = CHR ''(''"
      by (auto simp: special_cases)
    then show ?thesis
    proof cases
      case arr
      from "1.prems"(2) obtain t' where sub: "TypeInfo_of_string (substr sig 1 (length sig - 1)) = Inr t'"
        by (simp add: TypeInfo_of_string_array [OF ok(2) arr len] split: sum.splits)
      have tl: "substr sig 1 (length sig - 1) = tl sig"
        by (simp add: substr_def drop_Suc)
      have "CHR ''{'' \<notin> set (tl sig)"
        using "1.prems"(1) ok(1) by (cases sig) auto
      moreover have "\<not> \<not> list_all (\<lambda>c. c \<in> set VALID_CHARS) sig" using ok(2) by simp
      moreover have "\<not> sig ! 0 \<notin> set SPECIAL_TYPES" using sp by simp
      moreover have "length sig \<noteq> 1" using len by simp
      moreover have "Type_of_char (sig ! 0) = Array" using arr by (simp add: Type_of_char_special)
      ultimately have "neutral (tl sig)"
        using "1.IH"(1) [OF ok(1) _ False _ _ _ _ sub] tl by simp
      moreover have "neutral [CHR ''a'']" by (simp add: neutral_plain)
      ultimately have "neutral ([CHR ''a''] @ tl sig)" by (rule neutral_append [rotated])
      moreover have "sig = CHR ''a'' # tl sig" using arr ok(1) by (cases sig) auto
      ultimately show ?thesis by simp
    next
      case str
      from "1.prems"(2) have lst: "last sig = CHR '')''"
        by (simp add: TypeInfo_of_string_struct [OF ok(2) str len] split: if_splits)
      with "1.prems"(2) obtain ts where lp: "struct_loop sig 1 [] = Inr ts"
        by (simp add: TypeInfo_of_string_struct [OF ok(2) str len] split: sum.splits)
      have "\<not> \<not> list_all (\<lambda>c. c \<in> set VALID_CHARS) sig" using ok(2) by simp
      moreover have "\<not> sig ! 0 \<notin> set SPECIAL_TYPES" using sp by simp
      moreover have "length sig \<noteq> 1" using len by simp
      moreover have "Type_of_char (sig ! 0) \<noteq> Array" "Type_of_char (sig ! 0) = Struct"
        using str by (simp_all add: Type_of_char_special)
      moreover have "\<not> last sig \<noteq> CHR '')''" using lst by simp
      ultimately have "neutral (members_from sig 1)"
        using "1.IH"(2) [OF ok(1) _ False _ _ _ _ _ "1.prems"(1) lp] by simp
      then have "neutral (CHR ''('' # members_from sig 1 @ [CHR '')''])"
        by (rule neutral_paren)
      with struct_shape [OF len str lst] show ?thesis by simp
    qed
  qed
next
  case (2 sig i acc)
  show ?case
  proof (cases "i < length sig - 1")
    case False
    then show ?thesis by (simp add: members_from_done neutral_Nil)
  next
    case True
    note lt = True
    show ?thesis
    proof (cases "sig ! i \<in> set SINGLE_TYPES")
      case True
      define b where "b = TypeInfo (Type_of_char (sig ! i)) [sig ! i] [] None None None"
      have tb: "TypeInfo_of_char (sig ! i) = Inr b"
        using True by (simp add: TypeInfo_of_char_def b_def)
      have "struct_loop sig (i + 1) (acc @ [b]) = Inr ts"
        using "2.prems"(2) by (simp add: struct_loop_single [OF lt True] b_def)
      from "2.IH"(1) [OF lt True tb "2.prems"(1) this]
      have "neutral (members_from sig (i + 1))" .
      moreover have "neutral [sig ! i]"
        using single_plain [OF True] by (simp add: neutral_plain)
      ultimately have "neutral ([sig ! i] @ members_from sig (i + 1))"
        by (rule neutral_append [rotated])
      then show ?thesis by (simp add: members_from_step [OF lt])
    next
      case False
      note ns = False
      have sp: "sig ! i \<in> set SPECIAL_TYPES"
      proof (rule ccontr)
        assume "sig ! i \<notin> set SPECIAL_TYPES"
        from struct_loop_stray [OF lt ns this] "2.prems"(2) show False by simp
      qed
      from "2.prems"(2) obtain e where ge: "getSpecialEnd sig i = Inr e"
        by (simp add: struct_loop_special [OF lt ns sp] split: sum.splits)
      from "2.prems"(2) ge have bound: "\<not> length sig - 1 \<le> e"
        by (simp add: struct_loop_special [OF lt ns sp] split: if_splits)
      from "2.prems"(2) ge bound obtain ba
        where sub: "TypeInfo_of_string (substr sig i (e - i + 1)) = Inr ba"
        by (simp add: struct_loop_special [OF lt ns sp] split: sum.splits)
      from "2.prems"(2) ge bound sub have rest: "struct_loop sig (e + 1) (acc @ [ba]) = Inr ts"
        by (simp add: struct_loop_special [OF lt ns sp])
      have "set (substr sig i (e - i + 1)) \<subseteq> set sig"
        unfolding substr_def by (meson set_take_subset set_drop_subset subset_trans)
      then have "CHR ''{'' \<notin> set (substr sig i (e - i + 1))"
        using "2.prems"(1) by blast
      from "2.IH"(2) [OF lt ns sp ge bound this sub]
      have n1: "neutral (substr sig i (e - i + 1))" .
      from "2.IH"(3) [OF lt ns sp ge bound sub "2.prems"(1) rest]
      have n2: "neutral (members_from sig (e + 1))" .
      have "i < e" using getSpecialEnd_gt [OF ge] .
      moreover have "e < length sig - 1" using bound by simp
      ultimately have "members_from sig i = substr sig i (e - i + 1) @ members_from sig (e + 1)"
        by (rule members_from_skip)
      with neutral_append [OF n1 n2] show ?thesis by simp
    qed
  qed
next
  case (3 sig3)
  show ?case by simp
next
  case (4 sig4 vs)
  show ?case by simp
qed

text \<open>
  The constructor never runs into a failed assertion or an undefined read: whenever it
  fails, it fails with \<open>InvalidType\<close>.
\<close>

lemma count_loop_error:
  "count_loop sig opn cls e cnt = Inl x \<Longrightarrow> x = InvalidType (Some sig)"
proof (induction sig opn cls e cnt rule: count_loop.induct)
  case (1 sig opn cls e cnt)
  show ?case
  proof (cases "e < length sig")
    case False
    with "1.prems" show ?thesis
      by (subst (asm) count_loop.simps) (simp split: if_splits)
  next
    case True
    define cnt' where "cnt' = (if sig ! e = opn then cnt + 1
                     else if sig ! e = cls then cnt - 1 else cnt)"
    have unf: "count_loop sig opn cls e cnt =
                 (if cnt' = 0 then Inr e else count_loop sig opn cls (e + 1) cnt')"
      using True by (subst count_loop.simps) (simp add: cnt'_def Let_def)
    show ?thesis
    proof (cases "cnt' = 0")
      case True
      with "1.prems" unf show ?thesis by simp
    next
      case False
      with "1.prems" unf have "count_loop sig opn cls (e + 1) cnt' = Inl x" by simp
      with "1.IH" [OF \<open>e < length sig\<close> cnt'_def False] show ?thesis by simp
    qed
  qed
qed

lemma getSpecialEnd_error:
  "start < length sig - 1 \<Longrightarrow> sig ! start \<in> set SPECIAL_TYPES \<Longrightarrow>
   getSpecialEnd sig start = Inl x \<Longrightarrow> x = InvalidType (Some sig)"
proof (induction sig start rule: getSpecialEnd.induct)
  case (1 sig start)
  note lt = "1.prems"(1) and sp = "1.prems"(2)
  have ne: "sig \<noteq> []" using lt by auto
  show ?case
  proof (cases "sig ! start = CHR ''a''")
    case False
    have "getSpecialEnd sig start =
            count_loop sig (sig ! start) (if sig ! start = CHR ''{'' then CHR ''}'' else CHR '')'')
              (start + 1) 1"
      using ne lt sp False by (subst getSpecialEnd.simps) (simp add: Let_def)
    with "1.prems"(3) have "count_loop sig (sig ! start)
              (if sig ! start = CHR ''{'' then CHR ''}'' else CHR '')'') (start + 1) 1 = Inl x"
      by simp
    from count_loop_error [OF this] show ?thesis .
  next
    case True
    note isa = True
    show ?thesis
    proof (cases "sig ! (start + 1) \<in> set SINGLE_TYPES")
      case True
      have "getSpecialEnd sig start = Inr (start + 1)"
        using ne lt sp isa True by (subst getSpecialEnd.simps) simp
      with "1.prems"(3) show ?thesis by simp
    next
      case False
      note nsingle = False
      have unf: "getSpecialEnd sig start =
         (if sig ! (start + 1) \<in> set SPECIAL_TYPES then
           (if start \<ge> length sig - 2 then Inl (InvalidType (Some sig))
            else getSpecialEnd sig (start + 1))
         else Inl (InvalidType (Some sig)))"
        using ne lt sp isa nsingle by (subst getSpecialEnd.simps) simp
      show ?thesis
      proof (cases "sig ! (start + 1) \<in> set SPECIAL_TYPES \<and> \<not> start \<ge> length sig - 2")
        case False
        with unf "1.prems"(3) show ?thesis by (auto split: if_splits)
      next
        case True
        then have s2: "sig ! (start + 1) \<in> set SPECIAL_TYPES"
          and b: "\<not> start \<ge> length sig - 2" by simp_all
        from unf "1.prems"(3) s2 b have rc: "getSpecialEnd sig (start + 1) = Inl x" by simp
        have a1: "\<not> \<not> start < length sig - 1" using lt by simp
        have a2: "\<not> sig ! start \<notin> set SPECIAL_TYPES" using sp by simp
        have lt': "start + 1 < length sig - 1" using b by simp
        from "1.IH" [OF ne a1 a2 isa nsingle s2 b lt' s2 rc] show ?thesis .
      qed
    qed
  qed
qed

lemma dict_key_part_start: "dict_key_part sig = Inr kv \<Longrightarrow> 1 \<le> snd kv"
  by (subst (asm) dict_key_part.simps) (auto split: if_splits sum.splits)

lemma closing_brace_not_special:
  assumes "last sig = CHR ''}''" and "vs < length sig" and "sig ! vs \<in> set SPECIAL_TYPES"
  shows "vs < length sig - 1"
proof (rule ccontr)
  assume "\<not> vs < length sig - 1"
  with assms(2) have "vs = length sig - 1" by simp
  moreover have "sig \<noteq> []" using assms(2) by auto
  ultimately have "sig ! vs = last sig" by (simp add: last_conv_nth)
  with assms(1,3) show False by (simp add: special_cases)
qed

lemma errors_are_InvalidType:
  shows "TypeInfo_of_string sig = Inl x \<Longrightarrow> \<exists>m. x = InvalidType m"
    and "struct_loop sig2 i acc = Inl x \<Longrightarrow> \<exists>m. x = InvalidType m"
    and "2 \<le> length sig3 \<Longrightarrow> last sig3 = CHR ''}'' \<Longrightarrow> dict_key_part sig3 = Inl x \<Longrightarrow>
         \<exists>m. x = InvalidType m"
    and "1 \<le> vs \<Longrightarrow> last sig4 = CHR ''}'' \<Longrightarrow> dict_value_part sig4 vs = Inl x \<Longrightarrow>
         \<exists>m. x = InvalidType m"
proof (induction sig and sig2 i acc and sig3 and sig4 vs arbitrary: x and x and x and x
    rule: TypeInfo_of_string_struct_loop_dict_key_part_dict_value_part.induct)
  case (1 sig)
  show ?case
  proof (cases "sig = [] \<or> \<not> list_all (\<lambda>c. c \<in> set VALID_CHARS) sig")
    case True
    with "1.prems" show ?thesis
      by (subst (asm) TypeInfo_of_string.simps) (auto split: if_splits)
  next
    case False
    then have ne: "sig \<noteq> []" and valid: "list_all (\<lambda>c. c \<in> set VALID_CHARS) sig" by simp_all
    have nvalid: "\<not> \<not> list_all (\<lambda>c. c \<in> set VALID_CHARS) sig" using valid by simp
    show ?thesis
    proof (cases "sig ! 0 \<in> set SINGLE_TYPES")
      case True
      with "1.prems" ne valid show ?thesis
        by (auto simp: TypeInfo_of_string_single split: if_splits)
    next
      case False
      note ns = False
      show ?thesis
      proof (cases "sig ! 0 \<in> set SPECIAL_TYPES \<and> length sig \<noteq> 1")
        case False
        with "1.prems" ne valid ns show ?thesis
          by (subst (asm) TypeInfo_of_string.simps) (auto split: if_splits)
      next
        case True
        then have sp: "sig ! 0 \<in> set SPECIAL_TYPES" and l1: "length sig \<noteq> 1" by simp_all
        have nsp: "\<not> sig ! 0 \<notin> set SPECIAL_TYPES" using sp by simp
        have len: "length sig > 1" using ne l1 by (cases sig) auto
        from sp consider (arr) "sig ! 0 = CHR ''a''" | (str) "sig ! 0 = CHR ''(''"
          | (dct) "sig ! 0 = CHR ''{''"
          by (auto simp: special_cases)
        then show ?thesis
        proof cases
          case arr
          have ta: "Type_of_char (sig ! 0) = Array" using arr by (simp add: Type_of_char_special)
          from "1.prems" have "TypeInfo_of_string (substr sig 1 (length sig - 1)) = Inl x"
            by (simp add: TypeInfo_of_string_array [OF valid arr len] split: sum.splits)
          from "1.IH"(1) [OF ne nvalid ns nsp l1 ta this] show ?thesis .
        next
          case str
          have ta: "Type_of_char (sig ! 0) \<noteq> Array" "Type_of_char (sig ! 0) = Struct"
            using str by (simp_all add: Type_of_char_special)
          show ?thesis
          proof (cases "last sig \<noteq> CHR '')''")
            case True
            with "1.prems" show ?thesis
              by (auto simp: TypeInfo_of_string_struct [OF valid str len])
          next
            case False
            with "1.prems" have "struct_loop sig 1 [] = Inl x"
              by (simp add: TypeInfo_of_string_struct [OF valid str len] split: sum.splits)
            from "1.IH"(2) [OF ne nvalid ns nsp l1 ta False this] show ?thesis .
          qed
        next
          case dct
          have ta: "Type_of_char (sig ! 0) \<noteq> Array" "Type_of_char (sig ! 0) \<noteq> Struct"
            "Type_of_char (sig ! 0) = Dict"
            using dct by (simp_all add: Type_of_char_special)
          show ?thesis
          proof (cases "last sig \<noteq> CHR ''}''")
            case True
            with "1.prems" show ?thesis
              by (auto simp: TypeInfo_of_string_dict [OF valid dct len])
          next
            case False
            then have lst: "last sig = CHR ''}''" by simp
            have l2: "2 \<le> length sig" using len by simp
            show ?thesis
            proof (cases "dict_key_part sig")
              case (Inl e)
              with "1.prems" False have "x = e"
                by (simp add: TypeInfo_of_string_dict [OF valid dct len])
              with Inl "1.IH"(3) [OF ne nvalid ns nsp l1 ta False l2 lst] show ?thesis
                by simp
            next
              case (Inr kv)
              with "1.prems" False have "dict_value_part sig (snd kv) = Inl x"
                by (simp add: TypeInfo_of_string_dict [OF valid dct len] split: sum.splits)
              from "1.IH"(4) [OF ne nvalid ns nsp l1 ta False Inr dict_key_part_start [OF Inr]
                  lst this]
              show ?thesis .
            qed
          qed
        qed
      qed
    qed
  qed
next
  case (2 sig i acc)
  show ?case
  proof (cases "i < length sig - 1")
    case False
    with "2.prems" show ?thesis by (auto simp: struct_loop_done)
  next
    case True
    note lt = True
    show ?thesis
    proof (cases "sig ! i \<in> set SINGLE_TYPES")
      case True
      define b where "b = TypeInfo (Type_of_char (sig ! i)) [sig ! i] [] None None None"
      have tb: "TypeInfo_of_char (sig ! i) = Inr b"
        using True by (simp add: TypeInfo_of_char_def b_def)
      have "struct_loop sig (i + 1) (acc @ [b]) = Inl x"
        using "2.prems" by (simp add: struct_loop_single [OF lt True] b_def)
      from "2.IH"(1) [OF lt True tb this] show ?thesis .
    next
      case False
      note ns = False
      show ?thesis
      proof (cases "sig ! i \<in> set SPECIAL_TYPES")
        case False
        from struct_loop_stray [OF lt ns False] "2.prems" show ?thesis by auto
      next
        case True
        note sp = True
        show ?thesis
        proof (cases "getSpecialEnd sig i")
          case (Inl e)
          with "2.prems" have "x = e" by (simp add: struct_loop_special [OF lt ns sp])
          with getSpecialEnd_error [OF lt sp Inl] show ?thesis by simp
        next
          case (Inr e)
          note ge = Inr
          show ?thesis
          proof (cases "length sig - 1 \<le> e")
            case True
            with "2.prems" ge show ?thesis by (auto simp: struct_loop_special [OF lt ns sp])
          next
            case False
            note bound = False
            show ?thesis
            proof (cases "TypeInfo_of_string (substr sig i (e - i + 1))")
              case (Inl e')
              with "2.prems" ge bound have "x = e'"
                by (simp add: struct_loop_special [OF lt ns sp])
              with "2.IH"(2) [OF lt ns sp ge bound Inl] show ?thesis by simp
            next
              case (Inr ba)
              with "2.prems" ge bound have "struct_loop sig (e + 1) (acc @ [ba]) = Inl x"
                by (simp add: struct_loop_special [OF lt ns sp])
              from "2.IH"(3) [OF lt ns sp ge bound Inr this] show ?thesis .
            qed
          qed
        qed
      qed
    qed
  qed
next
  case (3 sig)
  note l2 = "3.prems"(1) and lst = "3.prems"(2) and err = "3.prems"(3)
  have nl: "\<not> length sig < 2" using l2 by simp
  show ?case
  proof (cases "sig ! 1 \<in> set SINGLE_TYPES")
    case True
    from err nl True have "TypeInfo_of_string (substr sig 1 1) = Inl x"
      by (subst (asm) dict_key_part.simps) (simp split: sum.splits)
    from "3.IH"(1) [OF nl True this] show ?thesis .
  next
    case False
    note ns = False
    show ?thesis
    proof (cases "sig ! 1 \<in> set SPECIAL_TYPES")
      case False
      with err nl ns show ?thesis
        by (subst (asm) dict_key_part.simps) auto
    next
      case True
      note sp = True
      have lt: "1 < length sig - 1"
        using closing_brace_not_special [OF lst _ sp] l2 by simp
      show ?thesis
      proof (cases "getSpecialEnd sig 1")
        case (Inl e)
        with err nl ns sp have "x = e"
          by (subst (asm) dict_key_part.simps) auto
        with getSpecialEnd_error [OF lt sp Inl] show ?thesis by simp
      next
        case (Inr ke)
        note ge = Inr
        show ?thesis
        proof (cases "length sig - 1 \<le> ke")
          case True
          with err nl ns sp ge show ?thesis
            by (subst (asm) dict_key_part.simps) auto
        next
          case False
          with err nl ns sp ge have "TypeInfo_of_string (substr sig 1 ke) = Inl x"
            by (subst (asm) dict_key_part.simps) (simp split: sum.splits)
          from "3.IH"(2) [OF nl ns sp ge False this] show ?thesis .
        qed
      qed
    qed
  qed
next
  case (4 sig vs)
  note v1 = "4.prems"(1) and lst = "4.prems"(2) and err = "4.prems"(3)
  have v0: "vs \<noteq> 0" using v1 by simp
  show ?case
  proof (cases "length sig \<le> vs")
    case True
    with err v0 show ?thesis
      by (subst (asm) dict_value_part.simps) auto
  next
    case False
    note inb = False
    show ?thesis
    proof (cases "sig ! vs \<in> set SINGLE_TYPES")
      case True
      from err v0 inb True have "TypeInfo_of_string (substr sig vs 1) = Inl x"
        by (subst (asm) dict_value_part.simps) auto
      from "4.IH"(1) [OF v0 inb True this] show ?thesis .
    next
      case False
      note ns = False
      show ?thesis
      proof (cases "sig ! vs \<in> set SPECIAL_TYPES")
        case False
        with err v0 inb ns show ?thesis
          by (subst (asm) dict_value_part.simps) auto
      next
        case True
        note sp = True
        have lt: "vs < length sig - 1"
          using closing_brace_not_special [OF lst _ sp] inb by simp
        show ?thesis
        proof (cases "getSpecialEnd sig vs")
          case (Inl e)
          with err v0 inb ns sp have "x = e"
            by (subst (asm) dict_value_part.simps) auto
          with getSpecialEnd_error [OF lt sp Inl] show ?thesis by simp
        next
          case (Inr ve)
          note ge = Inr
          show ?thesis
          proof (cases "ve \<noteq> length sig - 2")
            case True
            with err v0 inb ns sp ge show ?thesis
              by (subst (asm) dict_value_part.simps) auto
          next
            case False
            with err v0 inb ns sp ge
            have "TypeInfo_of_string (substr sig vs (ve - vs + 1)) = Inl x"
              by (subst (asm) dict_value_part.simps) auto
            from "4.IH"(2) [OF v0 inb ns sp ge False this] show ?thesis .
          qed
        qed
      qed
    qed
  qed
qed

text \<open>
  C3, as the claim states it, fails: the constructor accepts the empty struct \<^verbatim>\<open>()\<close>, and it
  accepts the dict \<^verbatim>\<open>{(i)s}\<close>, whose key is a struct.
\<close>

theorem TypeInfo_of_string_accepts_counterexample:
  "TypeInfo_of_string ''()'' = Inr (TypeInfo Struct ''()'' [] None None None) \<and>
   TypeInfo_of_string ''{(i)s}'' =
     Inr (TypeInfo Dict ''{(i)s}'' [] None
            (Some (TypeInfo Struct ''(i)'' [TypeInfo Int32 ''i'' [] None None None]
                     None None None))
            (Some (TypeInfo String ''s'' [] None None None)))"
  by code_simp

text \<open>
  C3, amended: the constructor fails with \<open>InvalidType\<close>, and so produces no TypeInfo, for
  every string that is empty, or has a character outside the alphabet
  \<^verbatim>\<open>nqiuxtdysgoba({)}\<close>, or starts with the character of a basic kind and is longer than one
  character, or starts with \<^verbatim>\<open>(\<close> and does not end with \<^verbatim>\<open>)\<close>, or starts with \<^verbatim>\<open>{\<close> and does
  not end with \<^verbatim>\<open>}\<close>, or has no \<^verbatim>\<open>{\<close> and is not balanced in its parentheses and braces.
\<close>

theorem TypeInfo_of_string_rejects_malformed:
  assumes "sig = [] \<or>
           (\<exists>c \<in> set sig. c \<notin> set VALID_CHARS) \<or>
           (sig ! 0 \<in> set SINGLE_TYPES \<and> length sig > 1) \<or>
           (sig ! 0 = CHR ''('' \<and> last sig \<noteq> CHR '')'') \<or>
           (sig ! 0 = CHR ''{'' \<and> last sig \<noteq> CHR ''}'') \<or>
           (CHR ''{'' \<notin> set sig \<and> \<not> balanced sig [])"
  shows "is_InvalidType (TypeInfo_of_string sig)"
proof (cases "TypeInfo_of_string sig")
  case (Inl x)
  with errors_are_InvalidType(1) [OF Inl] show ?thesis by auto
next
  case (Inr t)
  note ok = TypeInfo_of_string_Inr [OF Inr]
  have "sig \<noteq> []" by (rule ok(1))
  moreover have "\<not> (\<exists>c \<in> set sig. c \<notin> set VALID_CHARS)"
    using ok(2) by (simp add: list_all_iff)
  moreover have "\<not> (sig ! 0 \<in> set SINGLE_TYPES \<and> length sig > 1)"
    using ok(4) by auto
  moreover have "\<not> (sig ! 0 = CHR ''('' \<and> last sig \<noteq> CHR '')'')"
  proof
    assume a: "sig ! 0 = CHR ''('' \<and> last sig \<noteq> CHR '')''"
    then have "sig ! 0 \<notin> set SINGLE_TYPES" using single_plain [of "sig ! 0"] by auto
    then have "length sig > 1" by (rule ok(5))
    with a Inr show False by (simp add: TypeInfo_of_string_struct [OF ok(2)])
  qed
  moreover have "\<not> (sig ! 0 = CHR ''{'' \<and> last sig \<noteq> CHR ''}'')"
  proof
    assume a: "sig ! 0 = CHR ''{'' \<and> last sig \<noteq> CHR ''}''"
    then have "sig ! 0 \<notin> set SINGLE_TYPES" using single_plain [of "sig ! 0"] by auto
    then have "length sig > 1" by (rule ok(5))
    with a Inr show False by (simp add: TypeInfo_of_string_dict [OF ok(2)])
  qed
  moreover have "\<not> (CHR ''{'' \<notin> set sig \<and> \<not> balanced sig [])"
    using accepted_neutral(1) [OF _ Inr] neutral_balanced by blast
  ultimately show ?thesis using assms by blast
qed

theorem TypeInfo_of_string_rejects_malformed_witness:
  "CHR ''{'' \<notin> set ''((i)'' \<and> \<not> balanced ''((i)'' [] \<and>
   is_InvalidType (TypeInfo_of_string ''((i)'')"
  using TypeInfo_of_string_rejects_malformed [of "''((i)''"] by simp

section \<open>Equality of Variants\<close>

text \<open>
  Variants of different type signatures compare unequal, whatever they hold.
\<close>

lemma variant_eq_type_mismatch:
  "TypeInfo_neq (v_type a) (v_type b) \<Longrightarrow> variant_eq cv a b = Inr False"
  by (subst variant_eq.simps) simp

text \<open>
  C1. The claim: \<open>v == v\<close> is true for every Variant, and comparing never raises. The
  code: for a validly constructed array of structs \<open>v\<close>, \<open>v == v\<close> throws \<open>InvalidType\<close>,
  because the array and struct case of \<^verbatim>\<open>operator==\<close> converts both sides with the vector
  accessor, which tests for \<^verbatim>\<open>Dict\<close>.
\<close>

theorem variant_eq_array_throws:
  "(case array_of_struct of
      Inl e \<Rightarrow> None
    | Inr v \<Rightarrow> Some (typeSignature (v_type v), variant_eq example_conv v v)) =
   Some (''a(q)'', Inl (InvalidType None))"
  by code_simp

section \<open>Typed accessors\<close>

text \<open>
  C4, as the claim states it, fails: the bool accessor of a Variant of kind Int16 does not
  fail with \<open>InvalidType\<close>; it returns \<^verbatim>\<open>false\<close>.
\<close>

theorem as_bool_mismatch_counterexample:
  "IPCVariant_of_int16 1 = Inr (IPCVariant [] [] 1 [] (TypeInfo Int16 ''n'' [] None None None)) \<and>
   primaryType (v_type (IPCVariant [] [] 1 [] (TypeInfo Int16 ''n'' [] None None None))) \<noteq> Boolean \<and>
   as_bool (IPCVariant [] [] 1 [] (TypeInfo Int16 ''n'' [] None None None)) = Inr False"
  by (simp add: IPCVariant_of_int16_def NUM_DATA_def TypeInfo_of_Type_def as_bool_def)

text \<open>
  C4, amended: each of the accessors to int16, uint16, int32, uint32, int64, uint64,
  double, byte, string and dict fails with \<open>InvalidType\<close> exactly when the primary kind of
  the Variant is not the kind of the accessor (for the string accessor: none of String,
  Signature, ObjectPath), and otherwise returns the stored slot: the low bits of the number
  for an integer accessor, its conversion for the double accessor, the string, the map.
  No accessor reads a slot of another kind. The bool accessor never fails: it is
  \<^verbatim>\<open>false\<close> when the primary kind is not Boolean and otherwise tells whether the stored
  number is not 0.
\<close>

theorem typed_accessors:
  fixes v :: IPCVariant and cv :: "'d double_conv"
  defines "k \<equiv> primaryType (v_type v)"
  shows
    "(is_InvalidType (as_int16 v) \<longleftrightarrow> k \<noteq> Int16) \<and>
     (k = Int16 \<longrightarrow> as_int16 v = Inr (ucast (v_num_data v))) \<and>
     (is_InvalidType (as_uint16 v) \<longleftrightarrow> k \<noteq> UInt16) \<and>
     (k = UInt16 \<longrightarrow> as_uint16 v = Inr (ucast (v_num_data v))) \<and>
     (is_InvalidType (as_int32 v) \<longleftrightarrow> k \<noteq> Int32) \<and>
     (k = Int32 \<longrightarrow> as_int32 v = Inr (ucast (v_num_data v))) \<and>
     (is_InvalidType (as_uint32 v) \<longleftrightarrow> k \<noteq> UInt32) \<and>
     (k = UInt32 \<longrightarrow> as_uint32 v = Inr (ucast (v_num_data v))) \<and>
     (is_InvalidType (as_int64 v) \<longleftrightarrow> k \<noteq> Int64) \<and>
     (k = Int64 \<longrightarrow> as_int64 v = Inr (v_num_data v)) \<and>
     (is_InvalidType (as_uint64 v) \<longleftrightarrow> k \<noteq> UInt64) \<and>
     (k = UInt64 \<longrightarrow> as_uint64 v = Inr (v_num_data v)) \<and>
     (is_InvalidType (as_double cv v) \<longleftrightarrow> k \<noteq> Double) \<and>
     (k = Double \<longrightarrow> as_double cv v = Inr (double_of_uint64 cv (v_num_data v))) \<and>
     (is_InvalidType (as_uint8 v) \<longleftrightarrow> k \<noteq> Byte) \<and>
     (k = Byte \<longrightarrow> as_uint8 v = Inr (ucast (v_num_data v))) \<and>
     (is_InvalidType (as_string v) \<longleftrightarrow> k \<noteq> String \<and> k \<noteq> Signature \<and> k \<noteq> ObjectPath) \<and>
     (k = String \<or> k = Signature \<or> k = ObjectPath \<longrightarrow> as_string v = Inr (v_string_data v)) \<and>
     (is_InvalidType (as_dict v) \<longleftrightarrow> k \<noteq> Dict) \<and>
     (k = Dict \<longrightarrow> as_dict v = Inr (v_dict v)) \<and>
     as_bool v = Inr (k = Boolean \<and> v_num_data v \<noteq> 0)"
  unfolding k_def
  by (simp add: as_int16_def as_uint16_def as_int32_def as_uint32_def as_int64_def
      as_uint64_def as_double_def as_uint8_def as_string_def as_dict_def as_bool_def
      NUM_TYPE_get_def not_string_kind_def)

theorem typed_accessors_witness:
  "primaryType (v_type (IPCVariant [] [] 70000 [] uint32_type)) = UInt32 \<and>
   as_uint32 (IPCVariant [] [] 70000 [] uint32_type) = Inr 70000 \<and>
   is_InvalidType (as_uint16 (IPCVariant [] [] 70000 [] uint32_type)) \<and>
   is_InvalidType (as_string (IPCVariant [] [] 70000 [] uint32_type)) \<and>
   as_bool (IPCVariant [] [] 70000 [] uint32_type) = Inr False"
  using typed_accessors [of "IPCVariant [] [] 70000 [] uint32_type" example_conv]
  by (simp add: uint32_type_def)

section \<open>The invariant of composite Variants\<close>

text \<open>
  The container constructors and the typed container assignments establish the invariant
  of the Variant they return, for every argument they accept.
\<close>

lemma array_check_typed:
  "array_check ty xs = Inr u \<Longrightarrow> list_all (element_typed ty) xs"
  by (induction xs)
    (auto simp: arrayType_def element_typed_def TypeInfo_eq_def TypeInfo_neq_def
      split: if_splits option.splits sum.splits)

lemma struct_check_typed:
  "length xs = length fmt \<Longrightarrow> struct_check fmt xs = Inr u \<Longrightarrow>
   list_all2 (\<lambda>c t. TypeInfo_eq (v_type c) t) xs fmt"
  by (induction fmt xs rule: struct_check.induct)
    (auto simp: TypeInfo_eq_def TypeInfo_neq_def split: if_splits)

lemma vector_check_typed:
  "vector_check ty xs = Inr u \<Longrightarrow> children_typed (IPCVariant xs d n s ty)"
  by (auto simp: vector_check_def children_typed_def structFormat_def
      split: if_splits sum.splits intro: array_check_typed struct_check_typed)

lemma dict_check_ctor_typed:
  "dict_check_ctor ty d = Inr u \<Longrightarrow> list_all (entry_typed ty) d"
  by (induction d)
    (auto simp: dictType_def entry_typed_def TypeInfo_eq_def TypeInfo_neq_def
      split: if_splits option.splits sum.splits)

lemma dict_check_assign_typed:
  "dictType ty = Inr dict_format \<Longrightarrow> dict_check_assign dict_format d = Inr u \<Longrightarrow>
   list_all (entry_typed ty) d"
  by (induction d)
    (auto simp: dictType_def entry_typed_def TypeInfo_eq_def TypeInfo_neq_def
      split: if_splits option.splits)

lemma IPCVariant_of_vector_typed:
  "IPCVariant_of_vector array ty = Inr v \<Longrightarrow> children_typed v"
  by (auto simp: IPCVariant_of_vector_def split: sum.splits intro: vector_check_typed)

lemma IPCVariant_of_dict_typed:
  "IPCVariant_of_dict dict ty = Inr v \<Longrightarrow> children_typed v"
  by (auto simp: IPCVariant_of_dict_def children_typed_def
      split: if_splits sum.splits dest: dict_check_ctor_typed)

lemma assign_vector_typed:
  "assign_vector v other = Inr v' \<Longrightarrow> children_typed v'"
  by (auto simp: assign_vector_def split: sum.splits intro: vector_check_typed)

lemma assign_dict_typed:
  "assign_dict v other = Inr v' \<Longrightarrow> children_typed v'"
  by (auto simp: assign_dict_def children_typed_def
      split: if_splits sum.splits dest: dict_check_assign_typed)

text \<open>
  C6. The claim: indexed access preserves the invariant, as construction and typed
  assignment do. The code: on the empty dict of type \<^verbatim>\<open>{su}\<close>, which has the invariant,
  \<^verbatim>\<open>operator[]\<close> with a key of type UInt32 raises nothing and leaves the dict with the entry
  (key, \<^verbatim>\<open>IPCVariant()\<close>): a key of type \<^verbatim>\<open>u\<close> where the dict declares \<^verbatim>\<open>s\<close>, and a value of the
  type None where it declares \<^verbatim>\<open>u\<close>. The invariant is lost.
\<close>

theorem subscript_key_breaks_invariant:
  "(case TypeInfo_of_string ''{su}'' of Inl e \<Rightarrow> None | Inr ty \<Rightarrow>
    case IPCVariant_of_dict [] ty of Inl e \<Rightarrow> None | Inr d \<Rightarrow>
    case IPCVariant_of_uint32 5 of Inl e \<Rightarrow> None | Inr key \<Rightarrow>
    case subscript_key d key of Inl e \<Rightarrow> None | Inr r \<Rightarrow>
      Some (children_typed d, map (\<lambda>e. (typeSignature (v_type (fst e)),
                                         typeSignature (v_type (snd e)))) (v_dict (snd r)),
            children_typed (snd r))) =
   Some (True, [(''u'', ''0'')], False)"
  by code_simp

section \<open>Whole-object assignment\<close>

text \<open>
  C9. \<^verbatim>\<open>a = b\<close> between Variants has no failing path and validates nothing: afterwards
  \<open>a\<close> is \<open>b\<close>, field by field, so \<open>a\<close> has the type of \<open>b\<close>; and there are Variants for
  which that type differs from the type \<open>a\<close> had.
\<close>

theorem assign_variant_takes_type:
  "assign_variant a b = b \<and> v_type (assign_variant a b) = v_type b \<and>
   (\<exists>a' b'. TypeInfo_neq (v_type (assign_variant a' b')) (v_type a'))"
proof -
  have eq: "\<And>a b. assign_variant a b = b"
    by (simp add: assign_variant_def set_dict_def set_array_def set_string_data_def
        set_num_data_def set_type_def)
  have "TypeInfo_neq
          (v_type (assign_variant IPCVariant_default
                     (IPCVariant [] [] 0 [] (TypeInfo Int16 ''n'' [] None None None))))
          (v_type IPCVariant_default)"
    by (simp add: eq IPCVariant_default_def TypeInfo_default_def TypeInfo_neq_def)
  then have "\<exists>a' b'. TypeInfo_neq (v_type (assign_variant a' b')) (v_type a')"
    by blast
  with eq show ?thesis by simp
qed

section \<open>Round trip through the wire format\<close>

text \<open>
  C5. The claim: \<open>fromWire (toWire v) == v\<close> for a nested array of structs. The code:
  \<^verbatim>\<open>toGVariant\<close> of the array of structs throws \<open>InvalidType\<close> and produces no wire value: its
  array case converts the Variant with the vector accessor, which tests for \<^verbatim>\<open>Dict\<close>.
\<close>

theorem toGVariant_array_throws:
  "(case array_of_struct of
      Inl e \<Rightarrow> None
    | Inr v \<Rightarrow> Some (children_typed v, toGVariant example_conv v)) =
   Some (True, Inl (InvalidType None))"
  by code_simp

section \<open>Dispatch of a property write\<close>

text \<open>
  C2. The claim: a write to a property declared not writable fails with AccessDenied and
  leaves the stored value unchanged. The code: on the example interface the callback sets
  the AccessDenied error, goes on to call \<^verbatim>\<open>setProperty\<close>, and returns \<^verbatim>\<open>true\<close>; the stored
  value of \<^verbatim>\<open>dpi\<close> is 2 afterwards, where it was 1.
\<close>

theorem set_property_not_writable_stores:
  "map_sum id
     (\<lambda>r. (cb_return r, cb_error r, map_option (\<lambda>i. getProperty i ''dpi'') (cb_heap r 0)))
     (gdbus_set_property example_conv [0 \<mapsto> example_interface] (Some example_server)
        ''/pizza/pixl/logiops/dev'' ''pizza.pixl.logiops.Device'' ''dpi'' (GUInt32 2)) =
   Inr (True, Some (G_DBUS_ERROR_ACCESS_DENIED, ''Property not writable''),
        Some (Inr (IPCVariant [] [] 2 [] uint32_type)))"
  by code_simp

section \<open>Registration\<close>

text \<open>
  C7, as the claim states it, fails: with a connection whose registration fails (it
  returns the id 0), \<^verbatim>\<open>IPCServer::registerInterface\<close> returns normally and the registry
  holds the entry.
\<close>

theorem registerInterface_failed_transport_counterexample:
  "registerInterface rejecting_transport [0 \<mapsto> IPCInterface_new ''dev'' ''Device'']
     \<lparr>nodes = []\<rparr> 0 =
     Inr \<lparr>nodes = [(''/pizza/pixl/logiops/dev'',
             [(''pizza.pixl.logiops.Device'',
               \<lparr>r_interface = 0, r_registrationId = 0,
                r_info = \<lparr>info_name = ''pizza.pixl.logiops.Device'', info_methods = [],
                          info_properties = [], info_signals = []\<rparr>\<rparr>)])]\<rparr>"
  by (simp add: registerInterface_def rejecting_transport_def IPCInterface_new_def
      makeInterfaceInfo_def LOGID_DBUS_NAME_def LOGID_DBUS_OBJECTMANAGER_NODE_def Let_def)

text \<open>
  C7, amended: for every connection and every live interface, \<^verbatim>\<open>registerInterface\<close> returns
  normally and the registry then maps the interface's (node, name) to a record holding the
  interface, the introspection data and the id the connection returned, whatever that id
  is (0 when the registration failed).
\<close>

theorem registerInterface_keeps_entry:
  assumes "h ipc_interface = Some i"
  shows "\<exists>srv' m. registerInterface tr h srv ipc_interface = Inr srv' \<and>
           map_of (nodes srv') (if_node i) = Some m \<and>
           map_of m (if_name i) =
             Some \<lparr>r_interface = ipc_interface,
                   r_registrationId = register_object tr (if_node i) (makeInterfaceInfo i),
                   r_info = makeInterfaceInfo i\<rparr>"
  using assms by (simp add: registerInterface_def Let_def update_conv')

theorem registerInterface_keeps_entry_witness:
  "[0 \<mapsto> example_interface] 0 = Some example_interface \<and>
   register_object rejecting_transport (if_node example_interface)
     (makeInterfaceInfo example_interface) = 0 \<and>
   (\<exists>srv' m. registerInterface rejecting_transport [0 \<mapsto> example_interface] \<lparr>nodes = []\<rparr> 0 =
        Inr srv' \<and>
      map_of (nodes srv') (if_node example_interface) = Some m \<and>
      map_of m (if_name example_interface) =
        Some \<lparr>r_interface = 0, r_registrationId = 0,
              r_info = makeInterfaceInfo example_interface\<rparr>)"
  using registerInterface_keeps_entry [of "[0 \<mapsto> example_interface]" 0 example_interface
      rejecting_transport "\<lparr>nodes = []\<rparr>"]
  by (simp add: rejecting_transport_def)

section \<open>Signals\<close>

text \<open>
  C8, as the claim states it, fails: when the connection rejects the signal,
  \<^verbatim>\<open>IPCServer::emitSignal\<close> does not return normally; it throws
  \<^verbatim>\<open>std::runtime_error("signal broadcast failed")\<close>.
\<close>

theorem IPCServer_emitSignal_rejected_counterexample:
  "IPCServer_emitSignal example_conv rejecting_transport example_interface ''changed'' [] =
     Inl (RuntimeError ''signal broadcast failed'')"
  by (simp add: IPCServer_emitSignal_def rejecting_transport_def)

text \<open>
  The payload \<^verbatim>\<open>IPCServer::emitSignal\<close> hands to the connection: \<^verbatim>\<open>nullptr\<close> for no arguments,
  otherwise the tuple of the translated arguments.
\<close>

lemma IPCServer_emitSignal_accepted:
  assumes "params = [] \<and> gparams = None \<or>
           params \<noteq> [] \<and> (\<exists>gs. toGVariant_list cv params = Inr gs \<and> gparams = Some (GTuple gs))"
    and "emit_signal tr (if_node i) (if_name i) signal gparams"
  shows "IPCServer_emitSignal cv tr i signal params = Inr gparams"
  using assms by (auto simp: IPCServer_emitSignal_def)

text \<open>
  C8, amended: when the connection rejects the broadcast, that is the signal under the
  interface's node and name with the payload translated from the arguments (no payload
  when there are no arguments), \<^verbatim>\<open>IPCServer::emitSignal\<close> throws the runtime error
  \<^verbatim>\<open>signal broadcast failed\<close>; and \<^verbatim>\<open>IPCInterface::emitSignal\<close> of a bound interface, once the
  signal is declared and the arguments match it in number and type, ends with the same
  error: it reaches its caller.
\<close>

theorem IPCServer_emitSignal_rejected:
  assumes "params = [] \<and> gparams = None \<or>
           params \<noteq> [] \<and> (\<exists>gs. toGVariant_list cv params = Inr gs \<and> gparams = Some (GTuple gs))"
    and "\<not> emit_signal tr (if_node i) (if_name i) signal gparams"
  shows "IPCServer_emitSignal cv tr i signal params =
           Inl (RuntimeError ''signal broadcast failed'') \<and>
         (if_server i \<noteq> None \<and> map_of (if_signals i) signal = Some info \<and>
          length info = length params \<and> signal_args_check info params = Inr () \<longrightarrow>
            IPCInterface_emitSignal cv tr i signal params =
              Inl (RuntimeError ''signal broadcast failed''))"
  using assms by (auto simp: IPCServer_emitSignal_def IPCInterface_emitSignal_def)

theorem IPCServer_emitSignal_rejected_witness:
  "toGVariant_list example_conv [IPCVariant [] [] 2 [] uint32_type] = Inr [GUInt32 2] \<and>
   \<not> emit_signal picky_transport (if_node signal_interface) (if_name signal_interface)
       ''changed'' (Some (GTuple [GUInt32 2])) \<and>
   emit_signal picky_transport (if_node signal_interface) (if_name signal_interface)
       ''changed'' None \<and>
   if_server signal_interface \<noteq> None \<and>
   map_of (if_signals signal_interface) ''changed'' = Some [(''value'', uint32_type)] \<and>
   signal_args_check [(''value'', uint32_type)] [IPCVariant [] [] 2 [] uint32_type] = Inr () \<and>
   IPCServer_emitSignal example_conv picky_transport signal_interface ''changed''
     [IPCVariant [] [] 2 [] uint32_type] = Inl (RuntimeError ''signal broadcast failed'') \<and>
   IPCInterface_emitSignal example_conv picky_transport signal_interface ''changed''
     [IPCVariant [] [] 2 [] uint32_type] = Inl (RuntimeError ''signal broadcast failed'')"
proof -
  have tr: "toGVariant_list example_conv [IPCVariant [] [] 2 [] uint32_type] = Inr [GUInt32 2]"
    by code_simp
  have names: "if_node signal_interface = ''/pizza/pixl/logiops/dev''"
    "if_name signal_interface = ''pizza.pixl.logiops.Device''"
    by (simp_all add: signal_interface_def IPCInterface_new_def LOGID_DBUS_NAME_def
        LOGID_DBUS_OBJECTMANAGER_NODE_def)
  have rej: "\<not> emit_signal picky_transport (if_node signal_interface)
               (if_name signal_interface) ''changed'' (Some (GTuple [GUInt32 2]))"
    by (simp add: names picky_transport_def)
  have acc: "emit_signal picky_transport (if_node signal_interface)
               (if_name signal_interface) ''changed'' None"
    by (simp add: names picky_transport_def)
  have bound: "if_server signal_interface \<noteq> None"
    and decl: "map_of (if_signals signal_interface) ''changed'' = Some [(''value'', uint32_type)]"
    by (simp_all add: signal_interface_def)
  have chk: "signal_args_check [(''value'', uint32_type)] [IPCVariant [] [] 2 [] uint32_type] =
               Inr ()"
    by (simp add: TypeInfo_neq_def)
  have pay: "[IPCVariant [] [] 2 [] uint32_type] = [] \<and> Some (GTuple [GUInt32 2]) = None \<or>
             [IPCVariant [] [] 2 [] uint32_type] \<noteq> [] \<and>
             (\<exists>gs. toGVariant_list example_conv [IPCVariant [] [] 2 [] uint32_type] = Inr gs \<and>
                   Some (GTuple [GUInt32 2]) = Some (GTuple gs))"
    using tr by simp
  from IPCServer_emitSignal_rejected [OF pay rej, of "[(''value'', uint32_type)]"]
    tr rej acc bound decl chk
  show ?thesis by simp
qed

text \<open>
  C10. An interface that is not bound to a server emits nothing and raises nothing,
  whatever the signal name and the arguments: the test of \<^verbatim>\<open>_server\<close> comes first.
\<close>

theorem emitSignal_unregistered:
  "if_server this = None \<Longrightarrow> IPCInterface_emitSignal cv tr this signal args = Inr None"
  by (simp add: IPCInterface_emitSignal_def)

theorem emitSignal_unregistered_witness:
  "if_server (IPCInterface_new [] []) = None \<and>
   map_of (if_signals (IPCInterface_new [] [])) ''undeclared'' = None \<and>
   IPCInterface_emitSignal example_conv rejecting_transport (IPCInterface_new [] [])
     ''undeclared'' [IPCVariant_default] = Inr None"
  using emitSignal_unregistered [of "IPCInterface_new [] []" example_conv rejecting_transport
      "''undeclared''" "[IPCVariant_default]"]
  by (simp add: IPCInterface_new_def)

end
